theory Spec2Isabelle
  imports Main
begin

section \<open>The outbound buffer: a bounded deque\<close>

text \<open>
  The module keeps one buffer, \<^verbatim>\<open>produce_queue = collections.deque([], 999)\<close>.
  A deque with a maximum length is a list, oldest element first. Both insertions first
  insert and then, when the deque has grown beyond its maximum length, discard one
  element from the opposite end: \<^verbatim>\<open>append\<close> discards the leftmost element,
  \<^verbatim>\<open>appendleft\<close> the rightmost one. \<^verbatim>\<open>popleft\<close> on an empty deque raises
  IndexError, which is the value \<open>None\<close> here.
\<close>

definition produce_queue_maxlen :: nat where
  "produce_queue_maxlen = 999"

definition deque_append :: "nat \<Rightarrow> 'a \<Rightarrow> 'a list \<Rightarrow> 'a list" where
  "deque_append maxlen x q =
     (let q' = q @ [x] in if maxlen < length q' then tl q' else q')"

definition deque_appendleft :: "nat \<Rightarrow> 'a \<Rightarrow> 'a list \<Rightarrow> 'a list" where
  "deque_appendleft maxlen x q =
     (let q' = x # q in if maxlen < length q' then butlast q' else q')"

definition deque_popleft :: "'a list \<Rightarrow> ('a \<times> 'a list) option" where
  "deque_popleft q = (case q of [] \<Rightarrow> None | x # q' \<Rightarrow> Some (x, q'))"

text \<open>
  The two insertions the program performs on the buffer: \<^verbatim>\<open>produce_queue.append\<close>
  (an upload continuation or the validation handler enqueues an event) and
  \<^verbatim>\<open>produce_queue.appendleft\<close> (the producer puts back an event whose publish failed).
\<close>

datatype 'a buffer_op = Enqueue 'a | Reinsert 'a

fun buffer_apply :: "'a buffer_op \<Rightarrow> 'a list \<Rightarrow> 'a list" where
  "buffer_apply (Enqueue x) q = deque_append produce_queue_maxlen x q"
| "buffer_apply (Reinsert x) q = deque_appendleft produce_queue_maxlen x q"

fun buffer_run :: "'a buffer_op list \<Rightarrow> 'a list \<Rightarrow> 'a list" where
  "buffer_run [] q = q"
| "buffer_run (a # as) q = buffer_run as (buffer_apply a q)"

section \<open>Values, exceptions and the process state\<close>

text \<open>
  The exceptions the modelled code can raise. \<open>StorageError\<close> stands for whatever
  exception the storage driver raises (it is no \<open>KafkaError\<close>); \<open>OSError\<close> is
  what \<^verbatim>\<open>os.remove\<close> raises for a missing file.
\<close>

datatype exn =
  KafkaError | ValueError | TypeError | KeyError | AttributeError | IndexError
  | OSError | StorageError

text \<open>
  How a coroutine ends: it returns, or an exception leaves it.
\<close>

datatype outcome = Done | Raised exn

text \<open>
  The values \<^verbatim>\<open>json.loads\<close> produces. An object is a dict in insertion order with
  distinct keys; numbers are integers.
\<close>

datatype json =
  JNull | JBool bool | JNum int | JStr string | JArr "json list"
  | JObj "(string \<times> json) list"

text \<open>Python's truth value of such a value.\<close>

fun py_truthy :: "json \<Rightarrow> bool" where
  "py_truthy JNull = False"
| "py_truthy (JBool b) = b"
| "py_truthy (JNum n) = (n \<noteq> 0)"
| "py_truthy (JStr s) = (s \<noteq> [])"
| "py_truthy (JArr xs) = (xs \<noteq> [])"
| "py_truthy (JObj kvs) = (kvs \<noteq> [])"

fun starts_with :: "string \<Rightarrow> string \<Rightarrow> bool" where
  "starts_with [] s = True"
| "starts_with (p # ps) [] = False"
| "starts_with (p # ps) (c # cs) = (p = c \<and> starts_with ps cs)"

fun str_contains :: "string \<Rightarrow> string \<Rightarrow> bool" where
  "str_contains k [] = (k = [])"
| "str_contains k (c # cs) = (starts_with k (c # cs) \<or> str_contains k cs)"

text \<open>
  \<^verbatim>\<open>k in data\<close> for a string \<open>k\<close>: key membership in a dict, element
  membership in a list, substring test in a string, TypeError for the values that are
  not iterable.
\<close>

fun py_contains :: "string \<Rightarrow> json \<Rightarrow> exn + bool" where
  "py_contains k (JObj kvs) = Inr (k \<in> set (map fst kvs))"
| "py_contains k (JArr xs) = Inr (JStr k \<in> set xs)"
| "py_contains k (JStr s) = Inr (str_contains k s)"
| "py_contains k JNull = Inl TypeError"
| "py_contains k (JBool b) = Inl TypeError"
| "py_contains k (JNum n) = Inl TypeError"

text \<open>
  \<^verbatim>\<open>data[k]\<close> for a string \<open>k\<close>: KeyError for a dict without the key, TypeError
  for every other value (a list or a string wants an integer index, the rest cannot be
  subscripted).
\<close>

fun py_getitem :: "json \<Rightarrow> string \<Rightarrow> exn + json" where
  "py_getitem (JObj kvs) k = (case map_of kvs k of None \<Rightarrow> Inl KeyError | Some v \<Rightarrow> Inr v)"
| "py_getitem JNull k = Inl TypeError"
| "py_getitem (JBool b) k = Inl TypeError"
| "py_getitem (JNum n) k = Inl TypeError"
| "py_getitem (JStr s) k = Inl TypeError"
| "py_getitem (JArr xs) k = Inl TypeError"

text \<open>\<^verbatim>\<open>data.get(k)\<close>: only a dict has the method; a missing key gives None.\<close>

fun py_get :: "json \<Rightarrow> string \<Rightarrow> exn + json" where
  "py_get (JObj kvs) k = Inr (case map_of kvs k of None \<Rightarrow> JNull | Some v \<Rightarrow> v)"
| "py_get JNull k = Inl AttributeError"
| "py_get (JBool b) k = Inl AttributeError"
| "py_get (JNum n) k = Inl AttributeError"
| "py_get (JStr s) k = Inl AttributeError"
| "py_get (JArr xs) k = Inl AttributeError"

text \<open>
  \<^verbatim>\<open>result.lower()\<close>: only a string has the method. Strings are byte strings here,
  so the letters with a lower case are A to Z.
\<close>

definition lower_char :: "char \<Rightarrow> char" where
  "lower_char c =
     (case map_of (zip ''ABCDEFGHIJKLMNOPQRSTUVWXYZ'' ''abcdefghijklmnopqrstuvwxyz'') c of
        None \<Rightarrow> c
      | Some d \<Rightarrow> d)"

definition str_lower :: "string \<Rightarrow> string" where
  "str_lower s = map lower_char s"

fun py_lower :: "json \<Rightarrow> exn + string" where
  "py_lower (JStr s) = Inr (str_lower s)"
| "py_lower JNull = Inl AttributeError"
| "py_lower (JBool b) = Inl AttributeError"
| "py_lower (JNum n) = Inl AttributeError"
| "py_lower (JArr xs) = Inl AttributeError"
| "py_lower (JObj kvs) = Inl AttributeError"

text \<open>
  An item of the produce queue is a dict with the keys \<^verbatim>\<open>topic\<close> and \<^verbatim>\<open>msg\<close>;
  \<^verbatim>\<open>msg\<close> is a dict, kept in insertion order.
\<close>

record event =
  topic :: string
  msg :: "(string \<times> json) list"

datatype tier = QUARANTINE | PERM | REJECT

text \<open>The calls made to the storage driver, in the order they are made.\<close>

datatype storage_call =
  StorageWrite string tier string
  | StorageCopy tier tier json

datatype level = INFO | ERROR | EXCEPTION

text \<open>
  The arguments \<^verbatim>\<open>UploadHandler.post\<close> hands to \<^verbatim>\<open>process_upload\<close>.
\<close>

record upload_task =
  task_filename :: string
  task_size :: int
  task_tracking_id :: string
  task_payload_id :: string
  task_identity :: "json option"
  task_service :: string

text \<open>
  The state the module's coroutines share: the produce queue, the two flags of
  \<^verbatim>\<open>MQStatus\<close>, and the effects on the outside, each as the list of what happened so
  far: the events the broker acknowledged, the calls to the storage driver, the
  temporary files (name to content), the continuations scheduled with
  \<^verbatim>\<open>asyncio.ensure_future\<close>, and the logger calls (level and format string).
\<close>

record world =
  produce_queue :: "event list"
  mqc_connected :: bool
  mqp_connected :: bool
  published :: "event list"
  storage_calls :: "storage_call list"
  tmp_files :: "string \<rightharpoonup> string"
  scheduled :: "upload_task list"
  logs :: "(level \<times> string) list"

definition log :: "level \<Rightarrow> string \<Rightarrow> world \<Rightarrow> world" where
  "log lvl fmt w = w\<lparr>logs := logs w @ [(lvl, fmt)]\<rparr>"

definition queue_append :: "event \<Rightarrow> world \<Rightarrow> world" where
  "queue_append e w = w\<lparr>produce_queue := deque_append produce_queue_maxlen e (produce_queue w)\<rparr>"

definition queue_appendleft :: "event \<Rightarrow> world \<Rightarrow> world" where
  "queue_appendleft e w =
     w\<lparr>produce_queue := deque_appendleft produce_queue_maxlen e (produce_queue w)\<rparr>"

text \<open>The state when the module has been loaded.\<close>

definition initial_world :: world where
  "initial_world =
     \<lparr>produce_queue = [], mqc_connected = False, mqp_connected = False, published = [],
      storage_calls = [], tmp_files = Map.empty, scheduled = [], logs = []\<rparr>"

section \<open>The producer loop\<close>

text \<open>
  What the outside does during one \<^verbatim>\<open>await mqp.send_and_wait(...)\<close>: the events
  other coroutines append to the produce queue while the producer is suspended, and
  whether the broker acknowledges the send (\<open>acked\<close>) or the call raises KafkaError.
\<close>

record broker_reply =
  arrivals :: "event list"
  acked :: bool

text \<open>
  The \<^verbatim>\<open>for _ in range(0, len(produce_queue))\<close> loop of \<^verbatim>\<open>producer\<close>: \<open>n\<close>
  passes are left, and \<open>reply k\<close> is the outside's answer to the \<open>k\<close>-th send of
  this loop. The handler of KafkaError neither leaves the loop nor reconnects: the next
  pass pops the queue again.
\<close>

fun producer_drain :: "nat \<Rightarrow> nat \<Rightarrow> (nat \<Rightarrow> broker_reply) \<Rightarrow> world \<Rightarrow> outcome \<times> world" where
  "producer_drain 0 k reply w = (Done, w)"
| "producer_drain (Suc n) k reply w =
     (case deque_popleft (produce_queue w) of
        None \<Rightarrow> (Raised IndexError, w)
      | Some (item, q) \<Rightarrow>
          (let w1 = log INFO ''Popped item from produce queue (qsize: %d): topic %s: %s''
                      (w\<lparr>produce_queue := q\<rparr>);
               w2 = fold queue_append (arrivals (reply k)) w1
           in if acked (reply k)
              then producer_drain n (Suc k) reply
                     (log INFO ''Produced on topic %s: %s''
                        (w2\<lparr>published := published w2 @ [item]\<rparr>))
              else producer_drain n (Suc k) reply
                     (queue_appendleft item
                        ((log EXCEPTION ''Producer client hit error, triggering re-connect...'' w2)
                           \<lparr>mqp_connected := False\<rparr>))))"

text \<open>
  One pass of the \<^verbatim>\<open>while True\<close> loop of \<^verbatim>\<open>producer\<close>. \<open>start_ok\<close> says whether
  \<^verbatim>\<open>mqp.start()\<close>, if this pass calls it, succeeds or raises KafkaError.
\<close>

record producer_env =
  start_ok :: bool
  replies :: "nat \<Rightarrow> broker_reply"

definition producer_pull :: "producer_env \<Rightarrow> world \<Rightarrow> outcome \<times> world" where
  "producer_pull env w =
     (if produce_queue w = [] then (Done, w)
      else producer_drain (length (produce_queue w)) 0 (replies env) w)"

definition producer_iteration :: "producer_env \<Rightarrow> world \<Rightarrow> outcome \<times> world" where
  "producer_iteration env w =
     (if \<not> mqp_connected w
      then (let w1 = log INFO ''Producer client not connected, attempting to connect...'' w
            in if start_ok env
               then producer_pull env
                      ((log INFO ''Producer client connected!'' w1)\<lparr>mqp_connected := True\<rparr>)
               else (Done, log EXCEPTION ''Producer client hit error, triggering re-connect...'' w1))
      else producer_pull env w)"

text \<open>
  The loop never ends by itself; \<open>producer_loop envs\<close> runs as many passes as
  \<open>envs\<close> describes and gives the state reached, or the exception that ended the
  coroutine.
\<close>

fun producer_loop :: "producer_env list \<Rightarrow> world \<Rightarrow> outcome \<times> world" where
  "producer_loop [] w = (Done, w)"
| "producer_loop (env # envs) w =
     (case producer_iteration env w of
        (Done, w') \<Rightarrow> producer_loop envs w'
      | (Raised e, w') \<Rightarrow> (Raised e, w'))"

definition producer :: "producer_env list \<Rightarrow> world \<Rightarrow> outcome \<times> world" where
  "producer envs w = producer_loop envs (w\<lparr>mqp_connected := False\<rparr>)"

section \<open>The validation handler and the consumer loop\<close>

text \<open>
  A record of the validation topic; its value is absent for a record without payload.
  \<^verbatim>\<open>json.loads\<close> is a parameter \<open>loads\<close> of the handler: \<open>None\<close> is its
  ValueError. The storage driver's \<^verbatim>\<open>copy\<close> is a parameter too: it returns the url
  or raises.
\<close>

record kafka_msg =
  msg_value :: "string option"

type_synonym json_loads = "string \<Rightarrow> json option"
type_synonym storage_copy = "tier \<Rightarrow> tier \<Rightarrow> json \<Rightarrow> exn + string"

text \<open>
  How one pass of the \<^verbatim>\<open>for msg in msgs\<close> loop of \<^verbatim>\<open>handle_file\<close> ends: it goes
  on to the next record, it executes \<^verbatim>\<open>return\<close>, or an exception leaves it.
\<close>

datatype flow = Continue | Return | Raise exn

definition available_event :: "string \<Rightarrow> json \<Rightarrow> event" where
  "available_event url payload_id =
     \<lparr>topic = ''platform.upload.available'',
      msg = [(''url'', JStr url), (''payload_id'', payload_id)]\<rparr>"

definition handle_result :: "storage_copy \<Rightarrow> json \<Rightarrow> json \<Rightarrow> world \<Rightarrow> flow \<times> world" where
  "handle_result copy payload_id result w =
     (case py_lower result of
        Inl e \<Rightarrow> (Raise e, w)
      | Inr r \<Rightarrow>
          if r = ''success''
          then (let w1 = w\<lparr>storage_calls :=
                           storage_calls w @ [StorageCopy QUARANTINE PERM payload_id]\<rparr>
                in case copy QUARANTINE PERM payload_id of
                     Inl e \<Rightarrow> (Raise e, w1)
                   | Inr url \<Rightarrow>
                       (Continue, queue_append (available_event url payload_id) (log INFO url w1)))
          else if r = ''failure''
          then (let w1 = (log INFO ''%s rejected'' w)\<lparr>storage_calls :=
                           storage_calls w @ [StorageCopy QUARANTINE REJECT payload_id]\<rparr>
                in case copy QUARANTINE REJECT payload_id of
                     Inl e \<Rightarrow> (Raise e, w1)
                   | Inr url \<Rightarrow> (Continue, w1))
          else (Continue, log INFO ''Unrecognized result: %s'' w))"

definition handle_data :: "storage_copy \<Rightarrow> json \<Rightarrow> world \<Rightarrow> flow \<times> world" where
  "handle_data copy data w =
     (case py_contains ''payload_id'' data of
        Inl e \<Rightarrow> (Raise e, w)
      | Inr has_payload_id \<Rightarrow>
          (case (if has_payload_id then Inr True else py_contains ''hash'' data) of
             Inl e \<Rightarrow> (Raise e, w)
           | Inr has_id \<Rightarrow>
               if \<not> has_id
               then (Return,
                     log ERROR
                       ''payload_id or hash not in message. Payload not removed from quarantine.'' w)
               else (case (if has_payload_id then py_getitem data ''payload_id''
                           else py_get data ''hash'') of
                       Inl e \<Rightarrow> (Raise e, w)
                     | Inr payload_id \<Rightarrow>
                         (case py_getitem data ''validation'' of
                            Inl e \<Rightarrow> (Raise e, w)
                          | Inr result \<Rightarrow>
                              handle_result copy payload_id result
                                (log INFO ''processing message: %s - %s'' w)))))"

definition handle_msg :: "json_loads \<Rightarrow> storage_copy \<Rightarrow> kafka_msg \<Rightarrow> world \<Rightarrow> flow \<times> world" where
  "handle_msg loads copy m w =
     (case msg_value m of
        None \<Rightarrow> (Raise TypeError, w)
      | Some raw \<Rightarrow>
          (case loads raw of
             None \<Rightarrow> (Continue, log ERROR ''handle_file(): unable to decode msg as json: {}'' w)
           | Some data \<Rightarrow> handle_data copy data w))"

fun handle_file :: "json_loads \<Rightarrow> storage_copy \<Rightarrow> kafka_msg list \<Rightarrow> world \<Rightarrow> outcome \<times> world" where
  "handle_file loads copy [] w = (Done, w)"
| "handle_file loads copy (m # ms) w =
     (case handle_msg loads copy m w of
        (Continue, w') \<Rightarrow> handle_file loads copy ms w'
      | (Return, w') \<Rightarrow> (Done, w')
      | (Raise e, w') \<Rightarrow> (Raised e, w'))"

definition VALIDATION_QUEUE :: string where
  "VALIDATION_QUEUE = ''platform.upload.validation''"

text \<open>
  One pass of the \<^verbatim>\<open>while True\<close> loop of \<^verbatim>\<open>consumer\<close>. \<open>c_start_ok\<close> says whether
  \<^verbatim>\<open>mqc.start()\<close>, if called, succeeds; \<open>polled\<close> is what \<^verbatim>\<open>mqc.getmany()\<close>
  gives: \<open>None\<close> for KafkaError, else the records by topic and partition.
\<close>

record consumer_env =
  c_start_ok :: bool
  polled :: "((string \<times> nat) \<times> kafka_msg list) list option"

fun consume_data ::
  "json_loads \<Rightarrow> storage_copy \<Rightarrow> ((string \<times> nat) \<times> kafka_msg list) list \<Rightarrow> world \<Rightarrow> outcome \<times> world" where
  "consume_data loads copy [] w = (Done, w)"
| "consume_data loads copy ((tp, msgs) # rest) w =
     (if fst tp = VALIDATION_QUEUE
      then (case handle_file loads copy msgs w of
              (Done, w') \<Rightarrow> consume_data loads copy rest w'
            | (Raised e, w') \<Rightarrow> (Raised e, w'))
      else consume_data loads copy rest w)"

text \<open>Only KafkaError is caught around the poll and the handler; the rest leaves the coroutine.\<close>

definition consumer_poll :: "json_loads \<Rightarrow> storage_copy \<Rightarrow> consumer_env \<Rightarrow> world \<Rightarrow> outcome \<times> world" where
  "consumer_poll loads copy env w =
     (case polled env of
        None \<Rightarrow>
          (Done, (log EXCEPTION ''Consume client hit error, triggering re-connect...'' w)
                   \<lparr>mqc_connected := False\<rparr>)
      | Some data \<Rightarrow>
          (case consume_data loads copy data w of
             (Done, w') \<Rightarrow> (Done, w')
           | (Raised e, w') \<Rightarrow>
               if e = KafkaError
               then (Done, (log EXCEPTION ''Consume client hit error, triggering re-connect...'' w')
                             \<lparr>mqc_connected := False\<rparr>)
               else (Raised e, w')))"

definition consumer_iteration ::
  "json_loads \<Rightarrow> storage_copy \<Rightarrow> consumer_env \<Rightarrow> world \<Rightarrow> outcome \<times> world" where
  "consumer_iteration loads copy env w =
     (if \<not> mqc_connected w
      then (let w1 = log INFO ''Consume client not connected, attempting to connect...'' w
            in if c_start_ok env
               then consumer_poll loads copy env
                      ((log INFO ''Consumer client connected!'' w1)\<lparr>mqc_connected := True\<rparr>)
               else (Done, log EXCEPTION ''Consume client hit error, triggering re-connect...'' w1))
      else consumer_poll loads copy env w)"

fun consumer_loop ::
  "json_loads \<Rightarrow> storage_copy \<Rightarrow> consumer_env list \<Rightarrow> world \<Rightarrow> outcome \<times> world" where
  "consumer_loop loads copy [] w = (Done, w)"
| "consumer_loop loads copy (env # envs) w =
     (case consumer_iteration loads copy env w of
        (Done, w') \<Rightarrow> consumer_loop loads copy envs w'
      | (Raised e, w') \<Rightarrow> (Raised e, w'))"

definition consumer ::
  "json_loads \<Rightarrow> storage_copy \<Rightarrow> consumer_env list \<Rightarrow> world \<Rightarrow> outcome \<times> world" where
  "consumer loads copy envs w = consumer_loop loads copy envs (w\<lparr>mqc_connected := False\<rparr>)"

section \<open>The content type of an upload\<close>

text \<open>
  \<^verbatim>\<open>content_regex = r'^application/vnd\.redhat\.([a-z0-9-]+)\.([a-z0-9-]+)\+(tgz|zip)$'\<close>.
  \<open>content_regex_search s\<close> is \<^verbatim>\<open>re.search(content_regex, s)\<close>: \<open>None\<close>
  when there is no match, else the three groups. The character class holds neither the
  dot nor the plus sign, so each group is the longest run of class characters; the
  final \<^verbatim>\<open>$\<close> also matches before a newline that ends the string.
\<close>

definition service_char :: "char \<Rightarrow> bool" where
  "service_char c = (c \<in> set ''abcdefghijklmnopqrstuvwxyz0123456789-'')"

definition strip_prefix :: "string \<Rightarrow> string \<Rightarrow> string option" where
  "strip_prefix p s = (if take (length p) s = p then Some (drop (length p) s) else None)"

definition content_regex_search :: "string \<Rightarrow> (string \<times> string \<times> string) option" where
  "content_regex_search s =
     (case strip_prefix ''application/vnd.redhat.'' s of
        None \<Rightarrow> None
      | Some r1 \<Rightarrow>
          (let g1 = takeWhile service_char r1; r2 = dropWhile service_char r1
           in if g1 = [] then None
              else (case r2 of
                      [] \<Rightarrow> None
                    | c2 # r3 \<Rightarrow>
                        if c2 \<noteq> CHR ''.'' then None
                        else (let g2 = takeWhile service_char r3; r4 = dropWhile service_char r3
                              in if g2 = [] then None
                                 else (case r4 of
                                         [] \<Rightarrow> None
                                       | c4 # r5 \<Rightarrow>
                                           if c4 \<noteq> CHR ''+'' then None
                                           else if r5 = ''tgz'' \<or> r5 = ''tgz'' @ [CHR 0x0A]
                                           then Some (g1, g2, ''tgz'')
                                           else if r5 = ''zip'' \<or> r5 = ''zip'' @ [CHR 0x0A]
                                           then Some (g1, g2, ''zip'')
                                           else None)))))"

text \<open>\<^verbatim>\<open>s.split(c)\<close> for a separator of one character: never the empty list.\<close>

fun split_on :: "char \<Rightarrow> string \<Rightarrow> string list" where
  "split_on c [] = [[]]"
| "split_on c (x # xs) =
     (if x = c then [] # split_on c xs
      else (case split_on c xs of
              [] \<Rightarrow> [[x]]
            | p # ps \<Rightarrow> (x # p) # ps))"

text \<open>
  \<^verbatim>\<open>split_content\<close>: the element at index 2 of the split at the dots; the index
  raises IndexError when the split has fewer than three elements.
\<close>

definition split_content :: "string \<Rightarrow> exn + string" where
  "split_content content =
     (let parts = split_on CHR ''.'' content
      in if 2 < length parts then Inr (parts ! 2) else Inl IndexError)"

section \<open>The upload handler\<close>

text \<open>
  \<^verbatim>\<open>int(s)\<close> for a header value: surrounding whitespace is stripped, a sign may
  lead, and the digits may be grouped by single underscores; anything else is
  ValueError. A character is a code point below 256, so the digits are 0 to 9 and the
  whitespace \<^verbatim>\<open>int\<close> strips is the tab, the line feed, the vertical tab, the form
  feed, the carriage return, the space, the next-line character 0x85 and the no-break
  space 0xA0 (not the separators 0x1C to 0x1F). \<^verbatim>\<open>str(n)\<close> is the decimal
  numeral.
\<close>

definition py_space :: "char \<Rightarrow> bool" where
  "py_space c =
     (c \<in> set [CHR 0x09, CHR 0x0A, CHR 0x0B, CHR 0x0C, CHR 0x0D, CHR 0x20,
                CHR 0x85, CHR 0xA0])"

definition py_strip :: "string \<Rightarrow> string" where
  "py_strip s = rev (dropWhile py_space (rev (dropWhile py_space s)))"

definition digit_of :: "char \<Rightarrow> nat option" where
  "digit_of c = map_of (zip ''0123456789'' [0, 1, 2, 3, 4, 5, 6, 7, 8, 9]) c"

fun digits_value :: "nat \<Rightarrow> string \<Rightarrow> nat option" where
  "digits_value acc [] = Some acc"
| "digits_value acc (c # cs) =
     (case digit_of c of
        Some d \<Rightarrow> digits_value (10 * acc + d) cs
      | None \<Rightarrow>
          (case cs of
             [] \<Rightarrow> None
           | c' # cs' \<Rightarrow>
               if c = CHR ''_'' \<and> digit_of c' \<noteq> None then digits_value acc cs else None))"

definition py_int :: "string \<Rightarrow> exn + int" where
  "py_int s =
     (let t = py_strip s;
          negative = (case t of [] \<Rightarrow> False | c # cs \<Rightarrow> c = CHR ''-'');
          digits = (case t of [] \<Rightarrow> [] | c # cs \<Rightarrow> if c = CHR ''-'' \<or> c = CHR ''+'' then cs else t)
      in case digits of
           [] \<Rightarrow> Inl ValueError
         | c # cs \<Rightarrow>
             (case digit_of c of
                None \<Rightarrow> Inl ValueError
              | Some d \<Rightarrow>
                  (case digits_value d cs of
                     None \<Rightarrow> Inl ValueError
                   | Some n \<Rightarrow> Inr (if negative then - int n else int n))))"

function str_nat :: "nat \<Rightarrow> string" where
  "str_nat n =
     (if n < 10 then [''0123456789'' ! n]
      else str_nat (n div 10) @ [''0123456789'' ! (n mod 10)])"
  by pat_completeness auto
termination
  by (relation "measure id") auto

definition str_int :: "int \<Rightarrow> string" where
  "str_int n = (if n < 0 then CHR ''-'' # str_nat (nat (- n)) else str_nat (nat n))"

text \<open>
  The request as the handler reads it: the headers, and the uploaded files by form
  field, each with its content type and body. The response is what the handler sets:
  the status with its reason (\<open>None\<close>: the standard reason of the code), the headers
  and the body written.
\<close>

record http_file =
  content_type :: string
  body :: string

record request =
  headers :: "string \<rightharpoonup> string"
  files :: "string \<rightharpoonup> http_file list"

record response =
  status :: int
  reason :: "string option"
  out_headers :: "(string \<times> string) list"
  written :: string

definition response0 :: response where
  "response0 = \<lparr>status = 200, reason = None, out_headers = [], written = []\<rparr>"

text \<open>
  \<^verbatim>\<open>upload_validation\<close>, with \<^verbatim>\<open>MAX_LENGTH\<close> as a parameter: \<open>Inr None\<close> when
  the method falls off its end, \<open>Inr (Some error)\<close> when it returns an error tuple,
  \<open>Inl\<close> when a subscript or \<^verbatim>\<open>int\<close> raises.
\<close>

definition upload_validation :: "int \<Rightarrow> request \<Rightarrow> exn + (int \<times> string) option" where
  "upload_validation MAX_LENGTH req =
     (case headers req ''Content-Length'' of
        None \<Rightarrow> Inl KeyError
      | Some cl \<Rightarrow>
          (case py_int cl of
             Inl e \<Rightarrow> Inl e
           | Inr n \<Rightarrow>
               if MAX_LENGTH \<le> n
               then Inr (Some (413, ''Payload too large: '' @ cl @ ''. Should not exceed '' @
                                  str_int MAX_LENGTH @ '' bytes''))
               else (case files req ''upload'' of
                       None \<Rightarrow> Inl KeyError
                     | Some [] \<Rightarrow> Inl IndexError
                     | Some (f # fs) \<Rightarrow>
                         if content_regex_search (content_type f) = None
                         then Inr (Some (415, ''Unsupported Media Type''))
                         else Inr None)))"

text \<open>
  What \<^verbatim>\<open>base64.b64decode\<close> and \<^verbatim>\<open>json.loads\<close> make of the value of the
  \<^verbatim>\<open>x-rh-identity\<close> header: the first raises, the second raises, or a value
  comes out. Both exceptions are ValueError.
\<close>

datatype identity_header = NotBase64 | NotJson | Decoded json

text \<open>
  The identity of the caller, as \<^verbatim>\<open>post\<close> reads it: absent without a non-empty
  \<^verbatim>\<open>x-rh-identity\<close> header, else the \<^verbatim>\<open>identity\<close> member of the decoded header.
  The decoding is a parameter \<open>decode\<close>. The header is logged once the base64
  decoding has succeeded.
\<close>

definition request_identity ::
  "(string \<Rightarrow> identity_header) \<Rightarrow> request \<Rightarrow> world \<Rightarrow> (exn + json option) \<times> world" where
  "request_identity decode req w =
     (case headers req ''x-rh-identity'' of
        None \<Rightarrow> (Inr None, w)
      | Some h \<Rightarrow>
          if h = [] then (Inr None, w)
          else (case decode h of
                  NotBase64 \<Rightarrow> (Inl ValueError, w)
                | NotJson \<Rightarrow> (Inl ValueError, log INFO ''x-rh-identity: %s'' w)
                | Decoded header \<Rightarrow>
                    (case py_getitem header ''identity'' of
                       Inl e \<Rightarrow> (Inl e, log INFO ''x-rh-identity: %s'' w)
                     | Inr identity \<Rightarrow>
                         (Inr (Some identity), log INFO ''x-rh-identity: %s'' w))))"

text \<open>
  \<^verbatim>\<open>UploadHandler.post\<close>. \<open>tmp\<close> is the name the system gives the temporary file
  of \<^verbatim>\<open>write_data\<close>. The continuation \<^verbatim>\<open>process_upload\<close> is scheduled, not run.
\<close>

definition post ::
  "int \<Rightarrow> (string \<Rightarrow> identity_header) \<Rightarrow> string \<Rightarrow> request \<Rightarrow> world \<Rightarrow>
   outcome \<times> response \<times> world" where
  "post MAX_LENGTH decode tmp req w =
     (if (case files req ''upload'' of None \<Rightarrow> True | Some fs \<Rightarrow> fs = [])
      then (Done, response0\<lparr>status := 415, reason := Some ''Upload field not found''\<rparr>,
            log INFO ''Upload field not found'' w)
      else (case headers req ''x-rh-insights-request-id'' of
              None \<Rightarrow>
                (Done,
                 response0\<lparr>status := 400,
                           out_headers := [(''Content-Type'', ''text/plain'')],
                           written := ''No payload_id assigned. Upload Failed''\<rparr>,
                 log ERROR ''No payload_id assigned. Upload Failed'' w)
            | Some payload_id \<Rightarrow>
                (case upload_validation MAX_LENGTH req of
                   Inl e \<Rightarrow> (Raised e, response0, w)
                 | Inr (Some invalid) \<Rightarrow>
                     (Done, response0\<lparr>status := fst invalid, reason := Some (snd invalid)\<rparr>, w)
                 | Inr None \<Rightarrow>
                     (case files req ''upload'' of
                        None \<Rightarrow> (Raised KeyError, response0, w)
                      | Some [] \<Rightarrow> (Raised IndexError, response0, w)
                      | Some (f # fs) \<Rightarrow>
                          (case split_content (content_type f) of
                             Inl e \<Rightarrow> (Raised e, response0, w)
                           | Inr service \<Rightarrow>
                               (case request_identity decode req w of
                                  (Inl e, w1) \<Rightarrow> (Raised e, response0, w1)
                                | (Inr identity, w1) \<Rightarrow>
                                    (case (case headers req ''Content-Length'' of
                                             None \<Rightarrow> Inl KeyError
                                           | Some cl \<Rightarrow> py_int cl) of
                                       Inl e \<Rightarrow> (Raised e, response0, w1)
                                     | Inr content_length \<Rightarrow>
                                         (Done,
                                          response0\<lparr>status := 202, reason := Some ''Accepted''\<rparr>,
                                          w1\<lparr>tmp_files := (tmp_files w1)(tmp \<mapsto> body f),
                                             scheduled := scheduled w1 @
                                               [\<lparr>task_filename = tmp,
                                                 task_size = content_length,
                                                 task_tracking_id =
                                                   (case headers req ''Tracking-ID'' of
                                                      None \<Rightarrow> ''null''
                                                    | Some t \<Rightarrow> t),
                                                 task_payload_id = payload_id,
                                                 task_identity = identity,
                                                 task_service = service\<rparr>]\<rparr>))))))))"

text \<open>
  The storage driver's \<^verbatim>\<open>write\<close> is a parameter: it raises, or returns the url and
  a progress handle; \<open>percentage k\<close> is what the handle's \<^verbatim>\<open>percentage\<close> reads
  at the \<open>k\<close>-th poll.
\<close>

type_synonym storage_write = "string \<Rightarrow> tier \<Rightarrow> string \<Rightarrow> exn + (string \<times> (nat \<Rightarrow> int))"

text \<open>
  The \<^verbatim>\<open>for count in range(0, STORAGE_UPLOAD_TIMEOUT * 10)\<close> loop of \<^verbatim>\<open>upload\<close>:
  \<open>n\<close> passes are left, the next poll is the \<open>k\<close>-th; the result is \<^verbatim>\<open>success\<close>.
\<close>

fun poll_progress :: "nat \<Rightarrow> nat \<Rightarrow> (nat \<Rightarrow> int) \<Rightarrow> bool" where
  "poll_progress 0 k percentage = False"
| "poll_progress (Suc n) k percentage =
     (if 100 \<le> percentage k then True else poll_progress n (Suc k) percentage)"

text \<open>
  \<^verbatim>\<open>UploadHandler.upload\<close>, with \<^verbatim>\<open>STORAGE_UPLOAD_TIMEOUT\<close> as a parameter. The
  result is the url, or \<open>None\<close> for Python's None. \<^verbatim>\<open>os.remove\<close> raises OSError
  when the file is not there.
\<close>

definition upload ::
  "int \<Rightarrow> storage_write \<Rightarrow> string \<Rightarrow> string \<Rightarrow> string \<Rightarrow> world \<Rightarrow> outcome \<times> string option \<times> world" where
  "upload STORAGE_UPLOAD_TIMEOUT write filename tracking_id payload_id w =
     (let w1 = log INFO ''tracking id [%s] payload_id [%s] attempting upload'' w;
          w2 = w1\<lparr>storage_calls :=
                    storage_calls w1 @ [StorageWrite filename QUARANTINE payload_id]\<rparr>;
          written_url =
            (case write filename QUARANTINE payload_id of
               Inl e \<Rightarrow> None
             | Inr (url, percentage) \<Rightarrow>
                 if poll_progress (nat (STORAGE_UPLOAD_TIMEOUT * 10)) 0 percentage
                 then Some url else None);
          w3 = (case write filename QUARANTINE payload_id of
                  Inl e \<Rightarrow>
                    log EXCEPTION
                      ''Exception hit uploading: tracking id [%s] payload_id [%s]'' w2
                | Inr r \<Rightarrow> w2)
      in case tmp_files w3 filename of
           None \<Rightarrow> (Raised OSError, None, w3)
         | Some content \<Rightarrow>
             (let w4 = w3\<lparr>tmp_files := (tmp_files w3)(filename := None)\<rparr>
              in case written_url of
                   None \<Rightarrow>
                     (Done, None,
                      log ERROR ''upload id: %s upload failed or timed out after %dsec!'' w4)
                 | Some url \<Rightarrow>
                     (Done, Some url,
                      log INFO
                        ''tracking id [%s] payload_id [%s] uploaded! elapsed [%fsec] url [%s]''
                        w4)))"

definition DUMMY_VALUES :: "(string \<times> json) list" where
  "DUMMY_VALUES =
     [(''principal'', JStr ''default_principal''),
      (''rh_account'', JStr ''000001''),
      (''payload_id'', JStr ''1234567890abcdef''),
      (''url'', JStr ''http://defaulttesturl''),
      (''validation'', JNum 0),
      (''size'', JNum 0)]"

text \<open>
  The first lines of \<^verbatim>\<open>process_upload\<close>: the account and the principal, from the
  identity when it is true in Python's sense, else from \<^verbatim>\<open>DUMMY_VALUES\<close>. A
  subscript may raise.
\<close>

definition account_values :: "json option \<Rightarrow> exn + (json \<times> json)" where
  "account_values identity =
     (let src = (case identity of
                   None \<Rightarrow> None
                 | Some i \<Rightarrow> if py_truthy i then Some i else None)
      in case src of
           Some i \<Rightarrow>
             (case py_getitem i ''account_number'' of
                Inl e \<Rightarrow> Inl e
              | Inr account \<Rightarrow>
                  (case py_getitem i ''org_id'' of
                     Inl e \<Rightarrow> Inl e
                   | Inr org \<Rightarrow> Inr (account, org)))
         | None \<Rightarrow>
             (case py_getitem (JObj DUMMY_VALUES) ''rh_account'' of
                Inl e \<Rightarrow> Inl e
              | Inr account \<Rightarrow>
                  (case py_getitem (JObj DUMMY_VALUES) ''principal'' of
                     Inl e \<Rightarrow> Inl e
                   | Inr dummy_principal \<Rightarrow> Inr (account, dummy_principal))))"

text \<open>
  \<^verbatim>\<open>UploadHandler.process_upload\<close>, the continuation of an accepted upload. The
  \<^verbatim>\<open>values\<close> dict is written out in the order its keys are set. The metrics call at
  the end goes to an outside service and is left out.
\<close>

definition process_upload :: "int \<Rightarrow> storage_write \<Rightarrow> upload_task \<Rightarrow> world \<Rightarrow> outcome \<times> world" where
  "process_upload STORAGE_UPLOAD_TIMEOUT write t w =
     (let w1 = log INFO ''identity - %s'' w
      in case account_values (task_identity t) of
           Inl e \<Rightarrow> (Raised e, w1)
         | Inr (account, org) \<Rightarrow>
             (let values =
                    [(''rh_account'', account),
                     (''principal'', org),
                     (''validation'', JNum 1),
                     (''payload_id'', JStr (task_payload_id t)),
                     (''hash'', JStr (task_payload_id t)),
                     (''size'', JNum (task_size t)),
                     (''service'', JStr (task_service t))]
              in case upload STORAGE_UPLOAD_TIMEOUT write (task_filename t) (task_tracking_id t)
                        (task_payload_id t) w1 of
                   (Raised e, url, w2) \<Rightarrow> (Raised e, w2)
                 | (Done, None, w2) \<Rightarrow> (Done, w2)
                 | (Done, Some url, w2) \<Rightarrow>
                     if url = [] then (Done, w2)
                     else (Done,
                           log INFO ''Data for payload_id [%s] put on produce queue (qsize: %d)''
                             (queue_append
                                \<lparr>topic = ''platform.upload.'' @ task_service t,
                                 msg = values @ [(''url'', JStr url)]\<rparr> w2))))"

section \<open>Properties of the outbound buffer\<close>

lemma length_deque_append:
  "length q \<le> n \<Longrightarrow> length (deque_append n x q) \<le> n"
  by (simp add: deque_append_def Let_def)

lemma length_deque_appendleft:
  "length q \<le> n \<Longrightarrow> length (deque_appendleft n x q) \<le> n"
  by (simp add: deque_appendleft_def Let_def)

lemma length_buffer_apply:
  "length q \<le> produce_queue_maxlen \<Longrightarrow> length (buffer_apply a q) \<le> produce_queue_maxlen"
  by (cases a) (simp_all add: length_deque_append length_deque_appendleft)

lemma length_buffer_run:
  "length q \<le> produce_queue_maxlen \<Longrightarrow> length (buffer_run as q) \<le> produce_queue_maxlen"
  by (induction as arbitrary: q) (simp_all add: length_buffer_apply)

lemma deque_append_full:
  "length q = n \<Longrightarrow> 0 < n \<Longrightarrow> deque_append n x q = tl q @ [x]"
  by (cases q) (simp_all add: deque_append_def Let_def)

lemma deque_appendleft_full:
  "length q = n \<Longrightarrow> 0 < n \<Longrightarrow> deque_appendleft n x q = x # butlast q"
  by (cases q) (simp_all add: deque_appendleft_def Let_def)

lemma buffer_run_enqueues:
  "length q + length xs \<le> produce_queue_maxlen \<Longrightarrow>
   buffer_run (map Enqueue xs) q = q @ xs"
proof (induction xs arbitrary: q)
  case Nil
  then show ?case by simp
next
  case (Cons x xs)
  have "deque_append produce_queue_maxlen x q = q @ [x]"
    using Cons.prems by (simp add: deque_append_def Let_def)
  then show ?case using Cons.IH [of "q @ [x]"] Cons.prems by simp
qed

lemma buffer_run_append:
  "buffer_run (as @ bs) q = buffer_run bs (buffer_run as q)"
  by (induction as arbitrary: q) simp_all

lemma upt_999: "[0..<999] = [0..<998] @ [998]"
proof -
  have "[0..<Suc 998] = [0..<998] @ [998]"
    by (rule upt_Suc_append) simp
  then show ?thesis by simp
qed

lemma butlast_upt_999: "butlast [0..<999] = [0..<998]"
  by (simp only: upt_999 butlast_snoc)

lemma buffer_run_fill:
  "buffer_run (map Enqueue [0..<999]) [] = [0..<999]"
  using buffer_run_enqueues [of "[]" "[0..<999]"] by (simp add: produce_queue_maxlen_def)

text \<open>
  C3 (as stated, refuted). The claim says that every insertion into a full buffer
  discards the oldest event. Fill the buffer with the events 0, ..., 998 (0 is the
  oldest) and re-insert an event 999 at the front, as the producer does after a failed
  publish: the buffer keeps the oldest event 0 and loses the newest event 998.
\<close>

theorem reinsert_into_full_buffer_discards_newest:
  "length (buffer_run (map Enqueue [0..<999]) []) = produce_queue_maxlen \<and>
   buffer_run (map Enqueue [0..<999] @ [Reinsert 999]) [] = 999 # [0..<998] \<and>
   0 \<in> set (buffer_run (map Enqueue [0..<999] @ [Reinsert 999]) []) \<and>
   998 \<notin> set (buffer_run (map Enqueue [0..<999] @ [Reinsert 999]) [])"
proof -
  have full: "length [0..<999] = produce_queue_maxlen"
    by (simp add: produce_queue_maxlen_def)
  have "deque_appendleft produce_queue_maxlen 999 [0..<999] = 999 # butlast [0..<999]"
    using full by (rule deque_appendleft_full) (simp add: produce_queue_maxlen_def)
  then have "buffer_run (map Enqueue [0..<999] @ [Reinsert 999]) [] = 999 # [0..<998]"
    by (simp add: buffer_run_append buffer_run_fill butlast_upt_999)
  moreover have "length (buffer_run (map Enqueue [0..<999]) []) = produce_queue_maxlen"
    by (simp add: buffer_run_fill produce_queue_maxlen_def)
  ultimately show ?thesis
    by simp
qed

text \<open>
  C3 (amended). Starting from the empty buffer, after every sequence of enqueue and
  re-insert operations the buffer holds at most 999 events. When the buffer is full, an
  enqueue discards the oldest event (the head) and keeps every other event followed by
  the new one; a re-insert at the front discards the newest event (the last one) and
  keeps every other event behind the re-inserted one.
\<close>

theorem produce_queue_bounded_eviction:
  "length (buffer_run ops []) \<le> produce_queue_maxlen \<and>
   (length (buffer_run ops []) = produce_queue_maxlen \<longrightarrow>
      buffer_apply (Enqueue x) (buffer_run ops []) = tl (buffer_run ops []) @ [x] \<and>
      buffer_apply (Reinsert x) (buffer_run ops []) = x # butlast (buffer_run ops []))"
proof -
  have "length (buffer_run ops []) \<le> produce_queue_maxlen"
    by (rule length_buffer_run) simp
  moreover have "0 < produce_queue_maxlen"
    by (simp add: produce_queue_maxlen_def)
  ultimately show ?thesis
    by (simp add: deque_append_full deque_appendleft_full)
qed

theorem produce_queue_bounded_eviction_witness:
  "length (buffer_run (map Enqueue [0..<999]) []) = produce_queue_maxlen \<and>
   buffer_apply (Enqueue 999) (buffer_run (map Enqueue [0..<999]) []) = [1..<999] @ [999] \<and>
   buffer_apply (Reinsert 999) (buffer_run (map Enqueue [0..<999]) []) = 999 # [0..<998]"
proof -
  have full: "length (buffer_run (map Enqueue [0..<999]) []) = produce_queue_maxlen"
    by (simp add: buffer_run_fill produce_queue_maxlen_def)
  have tl: "tl [0..<999] = [1..<999]"
    by simp
  have "buffer_apply (Enqueue 999) (buffer_run (map Enqueue [0..<999]) []) =
          tl (buffer_run (map Enqueue [0..<999]) []) @ [999] \<and>
        buffer_apply (Reinsert 999) (buffer_run (map Enqueue [0..<999]) []) =
          999 # butlast (buffer_run (map Enqueue [0..<999]) [])"
    using full produce_queue_bounded_eviction [of "map Enqueue [0..<999]" 999]
    by blast
  then show ?thesis
    using full by (simp only: buffer_run_fill tl butlast_upt_999)
qed

section \<open>Properties of the producer loop\<close>

lemmas queue_defs =
  log_def queue_append_def queue_appendleft_def deque_popleft_def deque_append_def
  deque_appendleft_def produce_queue_maxlen_def Let_def

text \<open>
  What one pass of the drain loop does when the publish raises: the flag is false
  afterwards, the event is back at the front of the buffer and nothing has been
  published; the loop goes on with the next pass.
\<close>

lemma fold_queue_append_frame:
  "mqp_connected (fold queue_append es w) = mqp_connected w \<and>
   published (fold queue_append es w) = published w \<and>
   logs (fold queue_append es w) = logs w"
  by (induction es arbitrary: w) (simp_all add: queue_append_def)

lemma hd_deque_appendleft:
  "hd (deque_appendleft produce_queue_maxlen x q) = x"
  by (cases q) (simp_all add: deque_appendleft_def produce_queue_maxlen_def Let_def)

lemma producer_drain_publish_error:
  assumes "produce_queue w = item # q" and "\<not> acked (reply k)"
  shows "\<exists>w'. producer_drain (Suc n) k reply w = producer_drain n (Suc k) reply w' \<and>
           \<not> mqp_connected w' \<and> hd (produce_queue w') = item \<and>
           published w' = published w"
proof -
  define w2 where "w2 = fold queue_append (arrivals (reply k))
      (log INFO ''Popped item from produce queue (qsize: %d): topic %s: %s''
         (w\<lparr>produce_queue := q\<rparr>))"
  define w' where "w' = queue_appendleft item
      ((log EXCEPTION ''Producer client hit error, triggering re-connect...'' w2)
         \<lparr>mqp_connected := False\<rparr>)"
  have step: "producer_drain (Suc n) k reply w = producer_drain n (Suc k) reply w'"
    using assms by (simp add: deque_popleft_def Let_def w'_def w2_def)
  have "published w2 = published w"
    by (simp add: w2_def fold_queue_append_frame log_def)
  then have "\<not> mqp_connected w' \<and> hd (produce_queue w') = item \<and>
             published w' = published w"
    by (simp add: w'_def queue_appendleft_def hd_deque_appendleft log_def)
  with step show ?thesis
    by blast
qed

text \<open>
  C1 (the code at the failing input). The producer starts with three events a, b, c in
  the buffer; the handshake succeeds; the first publish (of a) raises a broker error
  and every later publish is acknowledged. The claim wants no event of the batch sent
  until a reconnect has succeeded. The code sets the flag to false and puts a back at
  the front, but stays in the \<^verbatim>\<open>for\<close> loop: with the flag still false and no
  reconnect it publishes a and then b in the two remaining passes, as the log shows.
\<close>

theorem producer_publishes_after_error_without_reconnect:
  "producer
     [\<lparr>start_ok = True, replies = (\<lambda>k. \<lparr>arrivals = [], acked = (k \<noteq> 0)\<rparr>)\<rparr>]
     (initial_world\<lparr>produce_queue :=
        [available_event ''http://perm/a'' (JStr ''a''),
         available_event ''http://perm/b'' (JStr ''b''),
         available_event ''http://perm/c'' (JStr ''c'')]\<rparr>) =
   (Done,
    \<lparr>produce_queue = [available_event ''http://perm/c'' (JStr ''c'')],
     mqc_connected = False, mqp_connected = False,
     published =
       [available_event ''http://perm/a'' (JStr ''a''),
        available_event ''http://perm/b'' (JStr ''b'')],
     storage_calls = [], tmp_files = Map.empty, scheduled = [],
     logs =
       [(INFO, ''Producer client not connected, attempting to connect...''),
        (INFO, ''Producer client connected!''),
        (INFO, ''Popped item from produce queue (qsize: %d): topic %s: %s''),
        (EXCEPTION, ''Producer client hit error, triggering re-connect...''),
        (INFO, ''Popped item from produce queue (qsize: %d): topic %s: %s''),
        (INFO, ''Produced on topic %s: %s''),
        (INFO, ''Popped item from produce queue (qsize: %d): topic %s: %s''),
        (INFO, ''Produced on topic %s: %s'')]\<rparr>)"
  by (simp add: producer_def producer_iteration_def producer_pull_def initial_world_def
      queue_defs numeral_3_eq_3)

section \<open>Properties of the validation handler and the consumer loop\<close>

lemmas handler_defs = handle_msg_def handle_data_def handle_result_def available_event_def
  str_lower_def lower_char_def initial_world_def

lemma contains_map_of: "(k \<in> fst ` set kvs) = (map_of kvs k \<noteq> None)"
  by (simp add: map_of_eq_None_iff)

lemma handle_data_obj:
  assumes "map_of kvs ''payload_id'' = Some pid \<or>
           (map_of kvs ''payload_id'' = None \<and> map_of kvs ''hash'' = Some pid)"
    and "map_of kvs ''validation'' = Some result"
  shows "handle_data copy (JObj kvs) w =
         handle_result copy pid result (log INFO ''processing message: %s - %s'' w)"
  using assms by (auto simp: handle_data_def contains_map_of simp del: not_None_eq)

lemma handle_file_single:
  "handle_file loads copy [m] w =
     (case handle_msg loads copy m w of
        (Continue, w') \<Rightarrow> (Done, w')
      | (Return, w') \<Rightarrow> (Done, w')
      | (Raise e, w') \<Rightarrow> (Raised e, w'))"
  by (simp split: prod.splits flow.splits)

text \<open>
  C5. A verdict is a record whose value decodes to an object that carries the payload
  id (under \<^verbatim>\<open>payload_id\<close>, else under \<^verbatim>\<open>hash\<close>) and a string \<^verbatim>\<open>validation\<close>.
  The handler compares the lower-cased result. For "success" it calls the storage copy
  from QUARANTINE to PERM and, the copy having returned a url, appends exactly one
  event on \<^verbatim>\<open>platform.upload.available\<close> with that url and the payload id. For
  "failure" it calls the copy from QUARANTINE to REJECT and leaves the buffer as it
  was. For any other result it makes no storage call and leaves the buffer as it was.
\<close>

theorem verdict_dispatch:
  assumes "msg_value m = Some raw" and "loads raw = Some (JObj kvs)"
    and "map_of kvs ''payload_id'' = Some pid \<or>
         (map_of kvs ''payload_id'' = None \<and> map_of kvs ''hash'' = Some pid)"
    and "map_of kvs ''validation'' = Some (JStr r)"
  shows "(str_lower r = ''success'' \<longrightarrow> copy QUARANTINE PERM pid = Inr url \<longrightarrow>
            fst (handle_file loads copy [m] w) = Done \<and>
            storage_calls (snd (handle_file loads copy [m] w)) =
              storage_calls w @ [StorageCopy QUARANTINE PERM pid] \<and>
            produce_queue (snd (handle_file loads copy [m] w)) =
              deque_append produce_queue_maxlen
                \<lparr>topic = ''platform.upload.available'',
                 msg = [(''url'', JStr url), (''payload_id'', pid)]\<rparr> (produce_queue w)) \<and>
         (str_lower r = ''failure'' \<longrightarrow>
            storage_calls (snd (handle_file loads copy [m] w)) =
              storage_calls w @ [StorageCopy QUARANTINE REJECT pid] \<and>
            produce_queue (snd (handle_file loads copy [m] w)) = produce_queue w) \<and>
         (str_lower r \<noteq> ''success'' \<and> str_lower r \<noteq> ''failure'' \<longrightarrow>
            fst (handle_file loads copy [m] w) = Done \<and>
            storage_calls (snd (handle_file loads copy [m] w)) = storage_calls w \<and>
            produce_queue (snd (handle_file loads copy [m] w)) = produce_queue w)"
proof -
  have body: "handle_msg loads copy m w =
        handle_result copy pid (JStr r) (log INFO ''processing message: %s - %s'' w)"
    using assms by (simp add: handle_msg_def handle_data_obj)
  show ?thesis
    unfolding handle_file_single body
    by (auto simp: handle_result_def log_def queue_append_def available_event_def Let_def
        split: sum.splits)
qed

theorem verdict_dispatch_witness:
  "storage_calls (snd (handle_file
       (\<lambda>raw. Some (JObj [(''payload_id'', JStr ''abc''), (''validation'', JStr ''SUCCESS'')]))
       (\<lambda>src dst pid. Inr ''http://perm/abc'')
       [\<lparr>msg_value = Some ''v1''\<rparr>] initial_world)) =
     [StorageCopy QUARANTINE PERM (JStr ''abc'')] \<and>
   produce_queue (snd (handle_file
       (\<lambda>raw. Some (JObj [(''payload_id'', JStr ''abc''), (''validation'', JStr ''SUCCESS'')]))
       (\<lambda>src dst pid. Inr ''http://perm/abc'')
       [\<lparr>msg_value = Some ''v1''\<rparr>] initial_world)) =
     [\<lparr>topic = ''platform.upload.available'',
       msg = [(''url'', JStr ''http://perm/abc''), (''payload_id'', JStr ''abc'')]\<rparr>] \<and>
   storage_calls (snd (handle_file
       (\<lambda>raw. Some (JObj [(''hash'', JStr ''abc''), (''validation'', JStr ''Failure'')]))
       (\<lambda>src dst pid. Inr ''http://reject/abc'')
       [\<lparr>msg_value = Some ''v2''\<rparr>] initial_world)) =
     [StorageCopy QUARANTINE REJECT (JStr ''abc'')] \<and>
   produce_queue (snd (handle_file
       (\<lambda>raw. Some (JObj [(''hash'', JStr ''abc''), (''validation'', JStr ''Failure'')]))
       (\<lambda>src dst pid. Inr ''http://reject/abc'')
       [\<lparr>msg_value = Some ''v2''\<rparr>] initial_world)) = [] \<and>
   storage_calls (snd (handle_file
       (\<lambda>raw. Some (JObj [(''payload_id'', JStr ''abc''), (''validation'', JStr ''pending'')]))
       (\<lambda>src dst pid. Inr ''http://perm/abc'')
       [\<lparr>msg_value = Some ''v3''\<rparr>] initial_world)) = [] \<and>
   produce_queue (snd (handle_file
       (\<lambda>raw. Some (JObj [(''payload_id'', JStr ''abc''), (''validation'', JStr ''pending'')]))
       (\<lambda>src dst pid. Inr ''http://perm/abc'')
       [\<lparr>msg_value = Some ''v3''\<rparr>] initial_world)) = []"
proof -
  have lo: "str_lower ''SUCCESS'' = ''success''" "str_lower ''Failure'' = ''failure''"
    "str_lower ''pending'' = ''pending''"
    by (simp_all add: str_lower_def lower_char_def)
  note s = verdict_dispatch
    [of "\<lparr>msg_value = Some ''v1''\<rparr>" "''v1''"
        "\<lambda>raw. Some (JObj [(''payload_id'', JStr ''abc''), (''validation'', JStr ''SUCCESS'')])"
        "[(''payload_id'', JStr ''abc''), (''validation'', JStr ''SUCCESS'')]" "JStr ''abc''"
        "''SUCCESS''" "\<lambda>src dst pid. Inr ''http://perm/abc''" "''http://perm/abc''"
        initial_world]
  note f = verdict_dispatch
    [of "\<lparr>msg_value = Some ''v2''\<rparr>" "''v2''"
        "\<lambda>raw. Some (JObj [(''hash'', JStr ''abc''), (''validation'', JStr ''Failure'')])"
        "[(''hash'', JStr ''abc''), (''validation'', JStr ''Failure'')]" "JStr ''abc''"
        "''Failure''" "\<lambda>src dst pid. Inr ''http://reject/abc''" "''http://reject/abc''"
        initial_world]
  note p = verdict_dispatch
    [of "\<lparr>msg_value = Some ''v3''\<rparr>" "''v3''"
        "\<lambda>raw. Some (JObj [(''payload_id'', JStr ''abc''), (''validation'', JStr ''pending'')])"
        "[(''payload_id'', JStr ''abc''), (''validation'', JStr ''pending'')]" "JStr ''abc''"
        "''pending''" "\<lambda>src dst pid. Inr ''http://perm/abc''" "''http://perm/abc''"
        initial_world]
  show ?thesis
    using s f p
    by (simp add: lo initial_world_def deque_append_def produce_queue_maxlen_def)
qed

text \<open>A record that does not decode is logged and skipped; the batch goes on.\<close>

lemma handle_file_skips_undecodable:
  assumes "msg_value m = Some raw" and "loads raw = None"
  shows "handle_file loads copy (m # ms) w =
         handle_file loads copy ms
           (log ERROR ''handle_file(): unable to decode msg as json: {}'' w)"
  using assms by (simp add: handle_msg_def)

text \<open>
  C2 (the code at the failing input). The consumer polls twice. The first poll brings
  a "success" verdict for payload abc, and the storage copy raises for it; the second
  poll brings a "success" verdict for payload def, whose copy would succeed. The claim
  wants the error logged and the loop to go on. The code has no handler for the error
  in \<^verbatim>\<open>handle_file\<close> and catches only KafkaError in \<^verbatim>\<open>consumer\<close>: the error
  leaves the coroutine, nothing about it is logged, and the second poll never happens
  (no copy for def, no event).
\<close>

theorem consumer_ends_on_storage_error:
  "consumer
     (\<lambda>raw. if raw = ''v1''
            then Some (JObj [(''payload_id'', JStr ''abc''), (''validation'', JStr ''success'')])
            else if raw = ''v2''
            then Some (JObj [(''payload_id'', JStr ''def''), (''validation'', JStr ''success'')])
            else None)
     (\<lambda>src dst pid. if pid = JStr ''abc'' then Inl StorageError else Inr ''http://perm/def'')
     [\<lparr>c_start_ok = True,
       polled = Some [((''platform.upload.validation'', 0), [\<lparr>msg_value = Some ''v1''\<rparr>])]\<rparr>,
      \<lparr>c_start_ok = True,
       polled = Some [((''platform.upload.validation'', 0), [\<lparr>msg_value = Some ''v2''\<rparr>])]\<rparr>]
     initial_world =
   (Raised StorageError,
    \<lparr>produce_queue = [], mqc_connected = True, mqp_connected = False, published = [],
     storage_calls = [StorageCopy QUARANTINE PERM (JStr ''abc'')],
     tmp_files = Map.empty, scheduled = [],
     logs =
       [(INFO, ''Consume client not connected, attempting to connect...''),
        (INFO, ''Consumer client connected!''),
        (INFO, ''processing message: %s - %s'')]\<rparr>)"
  by (simp add: consumer_def consumer_iteration_def consumer_poll_def VALIDATION_QUEUE_def
      handler_defs log_def)

text \<open>
  C6 (the code at the failing input). A batch of two records: the first decodes to an
  object with neither \<^verbatim>\<open>payload_id\<close> nor \<^verbatim>\<open>hash\<close>, the second is a "success"
  verdict for payload abc. The claim wants the first record dropped and the second
  processed. The code logs the first and executes \<^verbatim>\<open>return\<close>, which ends the
  batch: the second record causes no copy and no event. (After a record that does not
  decode the code executes \<^verbatim>\<open>continue\<close>, and the second record is processed.)
\<close>

theorem handle_file_returns_on_record_without_id:
  "handle_file
     (\<lambda>raw. if raw = ''v1'' then Some (JObj [(''validation'', JStr ''success'')])
            else if raw = ''v2''
            then Some (JObj [(''payload_id'', JStr ''abc''), (''validation'', JStr ''success'')])
            else None)
     (\<lambda>src dst pid. Inr ''http://perm/abc'')
     [\<lparr>msg_value = Some ''v1''\<rparr>, \<lparr>msg_value = Some ''v2''\<rparr>] initial_world =
   (Done,
    initial_world\<lparr>logs :=
      [(ERROR, ''payload_id or hash not in message. Payload not removed from quarantine.'')]\<rparr>) \<and>
   handle_file
     (\<lambda>raw. if raw = ''v1'' then Some (JObj [(''validation'', JStr ''success'')])
            else if raw = ''v2''
            then Some (JObj [(''payload_id'', JStr ''abc''), (''validation'', JStr ''success'')])
            else None)
     (\<lambda>src dst pid. Inr ''http://perm/abc'')
     [\<lparr>msg_value = Some ''v0''\<rparr>, \<lparr>msg_value = Some ''v2''\<rparr>] initial_world =
   (Done,
    initial_world\<lparr>
      produce_queue := [available_event ''http://perm/abc'' (JStr ''abc'')],
      storage_calls := [StorageCopy QUARANTINE PERM (JStr ''abc'')],
      logs :=
        [(ERROR, ''handle_file(): unable to decode msg as json: {}''),
         (INFO, ''processing message: %s - %s''),
         (INFO, ''http://perm/abc'')]\<rparr>)"
  by (simp add: handler_defs queue_defs)

section \<open>Properties of the content type\<close>

lemma split_on_nonempty: "split_on c s \<noteq> []"
  by (induction s) (auto split: list.splits)

lemma split_on_sep: "c \<notin> set a \<Longrightarrow> split_on c (a @ c # b) = a # split_on c b"
  by (induction a) (auto split: list.splits)

lemma strip_prefix_Some: "strip_prefix p s = Some r \<Longrightarrow> s = p @ r"
  by (auto simp: strip_prefix_def split: if_splits) (metis append_take_drop_id)

lemma not_service_dot: "\<not> service_char CHR ''.''"
  by (simp add: service_char_def)

lemma takeWhile_service_no_dot: "CHR ''.'' \<notin> set (takeWhile service_char r)"
  using not_service_dot by (metis set_takeWhileD)

lemma content_regex_search_Some:
  assumes "content_regex_search s = Some (g1, g2, g3)"
  shows "\<exists>r1 r3. strip_prefix ''application/vnd.redhat.'' s = Some r1 \<and>
           g1 = takeWhile service_char r1 \<and> g1 \<noteq> [] \<and>
           dropWhile service_char r1 = CHR ''.'' # r3"
proof (cases "strip_prefix ''application/vnd.redhat.'' s")
  case None
  then show ?thesis using assms by (simp add: content_regex_search_def)
next
  case (Some r1)
  note r1 = this
  show ?thesis
  proof (cases "takeWhile service_char r1 = []")
    case True
    then show ?thesis using assms by (simp add: content_regex_search_def r1 True Let_def)
  next
    case False
    note ne = this
    show ?thesis
    proof (cases "dropWhile service_char r1")
      case Nil
      then show ?thesis using assms by (simp add: content_regex_search_def r1 ne Nil Let_def)
    next
      case (Cons c2 r3)
      note r3 = this
      show ?thesis
      proof (cases "c2 = CHR ''.''")
        case False
        then show ?thesis using assms by (simp add: content_regex_search_def r1 ne r3 False Let_def)
      next
        case True
        have "g1 = takeWhile service_char r1"
          using assms
          by (simp add: content_regex_search_def r1 ne r3 True Let_def split: list.splits if_splits)
        then show ?thesis using r1 ne r3 True by simp
      qed
    qed
  qed
qed

lemma content_regex_search_shape:
  assumes "content_regex_search s = Some (g1, g2, g3)"
  shows "\<exists>rest. s = ''application/vnd.redhat.'' @ g1 @ CHR ''.'' # rest \<and>
           CHR ''.'' \<notin> set g1 \<and> g1 \<noteq> []"
proof -
  obtain r1 r3 where r1: "strip_prefix ''application/vnd.redhat.'' s = Some r1"
    and g1: "g1 = takeWhile service_char r1" and ne: "g1 \<noteq> []"
    and r3: "dropWhile service_char r1 = CHR ''.'' # r3"
    using content_regex_search_Some [OF assms] by blast
  have "takeWhile service_char r1 @ dropWhile service_char r1 = r1"
    by (rule takeWhile_dropWhile_id)
  then have "r1 = g1 @ CHR ''.'' # r3"
    by (simp only: g1 r3)
  moreover have "s = ''application/vnd.redhat.'' @ r1"
    using r1 by (rule strip_prefix_Some)
  moreover have "CHR ''.'' \<notin> set g1"
    unfolding g1 by (rule takeWhile_service_no_dot)
  ultimately show ?thesis
    using ne by blast
qed

lemma split_prefix:
  assumes "CHR ''.'' \<notin> set g1"
  shows "split_on CHR ''.'' (''application/vnd.redhat.'' @ g1 @ CHR ''.'' # rest) =
     ''application/vnd'' # ''redhat'' # g1 # split_on CHR ''.'' rest"
proof -
  have s1: "split_on CHR ''.'' (''application/vnd'' @ CHR ''.'' # x) =
        ''application/vnd'' # split_on CHR ''.'' x" for x
    by (rule split_on_sep) simp
  have s2: "split_on CHR ''.'' (''redhat'' @ CHR ''.'' # x) = ''redhat'' # split_on CHR ''.'' x" for x
    by (rule split_on_sep) simp
  have s3: "split_on CHR ''.'' (g1 @ CHR ''.'' # rest) = g1 # split_on CHR ''.'' rest"
    using assms by (rule split_on_sep)
  have "''application/vnd.redhat.'' @ g1 @ CHR ''.'' # rest =
        ''application/vnd'' @ CHR ''.'' # (''redhat'' @ CHR ''.'' # (g1 @ CHR ''.'' # rest))"
    by simp
  then show ?thesis
    by (simp only: s1 s2 s3)
qed

lemma accepted_content_type_parts:
  assumes "content_regex_search ct = Some (g1, g2, g3)"
  shows "\<exists>rest. split_on CHR ''.'' ct =
           ''application/vnd'' # ''redhat'' # g1 # split_on CHR ''.'' rest"
proof -
  obtain rest where ct: "ct = ''application/vnd.redhat.'' @ g1 @ CHR ''.'' # rest"
    and d: "CHR ''.'' \<notin> set g1"
    using content_regex_search_shape [OF assms] by blast
  have "split_on CHR ''.'' ct =
      ''application/vnd'' # ''redhat'' # g1 # split_on CHR ''.'' rest"
    unfolding ct using d by (rule split_prefix)
  then show ?thesis ..
qed

lemma accepted_content_type_is_split:
  assumes "content_regex_search ct = Some (g1, g2, g3)"
  shows "split_content ct = Inr g1"
  using accepted_content_type_parts [OF assms] by (auto simp: split_content_def)

text \<open>
  C10. A content type the regular expression accepts splits at the dots into at least
  three segments, so the index 2 in \<^verbatim>\<open>split_content\<close> is in range: it does not
  raise, and the service it returns is the first group of the match.
\<close>

theorem accepted_content_type_has_service:
  "content_regex_search ct = Some (g1, g2, g3) \<Longrightarrow>
   3 \<le> length (split_on CHR ''.'' ct) \<and> split_content ct = Inr g1"
proof -
  assume m: "content_regex_search ct = Some (g1, g2, g3)"
  obtain rest where parts: "split_on CHR ''.'' ct =
      ''application/vnd'' # ''redhat'' # g1 # split_on CHR ''.'' rest"
    using accepted_content_type_parts [OF m] by blast
  show ?thesis
    by (simp add: split_content_def parts)
qed

theorem accepted_content_type_has_service_witness:
  "content_regex_search ''application/vnd.redhat.demo.testsvc+tgz'' =
     Some (''demo'', ''testsvc'', ''tgz'') \<and>
   3 \<le> length (split_on CHR ''.'' ''application/vnd.redhat.demo.testsvc+tgz'') \<and>
   split_content ''application/vnd.redhat.demo.testsvc+tgz'' = Inr ''demo''"
proof -
  have m: "content_regex_search ''application/vnd.redhat.demo.testsvc+tgz'' =
     Some (''demo'', ''testsvc'', ''tgz'')"
    by (simp add: content_regex_search_def strip_prefix_def service_char_def)
  from accepted_content_type_has_service [OF m] m show ?thesis
    by blast
qed

section \<open>Properties of the upload handler\<close>

lemma post_no_upload_field:
  assumes "files req ''upload'' = None \<or> files req ''upload'' = Some []"
  shows "post MAX_LENGTH decode tmp req w =
         (Done, response0\<lparr>status := 415, reason := Some ''Upload field not found''\<rparr>,
          log INFO ''Upload field not found'' w)"
  using assms by (auto simp: post_def)

lemma post_no_identifier:
  assumes "files req ''upload'' = Some (f # fs)"
    and "headers req ''x-rh-insights-request-id'' = None"
  shows "post MAX_LENGTH decode tmp req w =
         (Done,
          response0\<lparr>status := 400, out_headers := [(''Content-Type'', ''text/plain'')],
                    written := ''No payload_id assigned. Upload Failed''\<rparr>,
          log ERROR ''No payload_id assigned. Upload Failed'' w)"
  using assms by (simp add: post_def)

lemma post_too_large:
  assumes "files req ''upload'' = Some (f # fs)"
    and "headers req ''x-rh-insights-request-id'' = Some payload_id"
    and "headers req ''Content-Length'' = Some cl" and "py_int cl = Inr n"
    and "MAX_LENGTH \<le> n"
  shows "post MAX_LENGTH decode tmp req w =
         (Done,
          response0\<lparr>status := 413,
                    reason := Some (''Payload too large: '' @ cl @ ''. Should not exceed '' @
                                    str_int MAX_LENGTH @ '' bytes'')\<rparr>,
          w)"
  using assms by (simp add: post_def upload_validation_def)

lemma post_unsupported:
  assumes "files req ''upload'' = Some (f # fs)"
    and "headers req ''x-rh-insights-request-id'' = Some payload_id"
    and "headers req ''Content-Length'' = Some cl" and "py_int cl = Inr n"
    and "n < MAX_LENGTH" and "content_regex_search (content_type f) = None"
  shows "post MAX_LENGTH decode tmp req w =
         (Done, response0\<lparr>status := 415, reason := Some ''Unsupported Media Type''\<rparr>, w)"
  using assms by (simp add: post_def upload_validation_def)

lemma request_identity_frame:
  assumes "request_identity decode req w = (r, w1)"
  shows "tmp_files w1 = tmp_files w \<and> scheduled w1 = scheduled w \<and>
         produce_queue w1 = produce_queue w \<and> storage_calls w1 = storage_calls w"
  using assms
  by (auto simp: request_identity_def log_def
      split: option.splits sum.splits if_splits identity_header.splits)

lemma post_not_accepted_stages_nothing:
  assumes "post MAX_LENGTH decode tmp req w = (out, resp, w')" and "status resp \<noteq> 202"
  shows "tmp_files w' = tmp_files w \<and> scheduled w' = scheduled w"
  using assms
  by (auto simp: post_def log_def response0_def dest: request_identity_frame
      split: option.splits list.splits sum.splits if_splits prod.splits)

text \<open>
  C7. \<^verbatim>\<open>post\<close> checks in this order. A request without a file in the \<^verbatim>\<open>upload\<close>
  field gets 415. Else a request without the \<^verbatim>\<open>x-rh-insights-request-id\<close> header
  gets 400, whatever its length and content type are. Else a request whose declared
  content length is at least \<^verbatim>\<open>MAX_LENGTH\<close> gets 413, whatever its content type is.
  Else a request whose content type the pattern does not match gets 415. Whenever
  the response is not 202, no temporary file has been written and no continuation has
  been scheduled.
\<close>

theorem post_validation_order:
  "((files req ''upload'' = None \<or> files req ''upload'' = Some []) \<longrightarrow>
      post MAX_LENGTH decode tmp req w =
        (Done, response0\<lparr>status := 415, reason := Some ''Upload field not found''\<rparr>,
         log INFO ''Upload field not found'' w)) \<and>
   (files req ''upload'' = Some (f # fs) \<and>
    headers req ''x-rh-insights-request-id'' = None \<longrightarrow>
      post MAX_LENGTH decode tmp req w =
        (Done,
         response0\<lparr>status := 400, out_headers := [(''Content-Type'', ''text/plain'')],
                   written := ''No payload_id assigned. Upload Failed''\<rparr>,
         log ERROR ''No payload_id assigned. Upload Failed'' w)) \<and>
   (files req ''upload'' = Some (f # fs) \<and>
    headers req ''x-rh-insights-request-id'' = Some payload_id \<and>
    headers req ''Content-Length'' = Some cl \<and> py_int cl = Inr n \<and> MAX_LENGTH \<le> n \<longrightarrow>
      post MAX_LENGTH decode tmp req w =
        (Done,
         response0\<lparr>status := 413,
                   reason := Some (''Payload too large: '' @ cl @ ''. Should not exceed '' @
                                   str_int MAX_LENGTH @ '' bytes'')\<rparr>,
         w)) \<and>
   (files req ''upload'' = Some (f # fs) \<and>
    headers req ''x-rh-insights-request-id'' = Some payload_id \<and>
    headers req ''Content-Length'' = Some cl \<and> py_int cl = Inr n \<and> n < MAX_LENGTH \<and>
    content_regex_search (content_type f) = None \<longrightarrow>
      post MAX_LENGTH decode tmp req w =
        (Done, response0\<lparr>status := 415, reason := Some ''Unsupported Media Type''\<rparr>, w)) \<and>
   (status (fst (snd (post MAX_LENGTH decode tmp req w))) \<noteq> 202 \<longrightarrow>
      tmp_files (snd (snd (post MAX_LENGTH decode tmp req w))) = tmp_files w \<and>
      scheduled (snd (snd (post MAX_LENGTH decode tmp req w))) = scheduled w)"
proof (intro conjI impI)
  assume "files req ''upload'' = None \<or> files req ''upload'' = Some []"
  then show "post MAX_LENGTH decode tmp req w =
        (Done, response0\<lparr>status := 415, reason := Some ''Upload field not found''\<rparr>,
         log INFO ''Upload field not found'' w)"
    by (rule post_no_upload_field)
next
  assume "files req ''upload'' = Some (f # fs) \<and>
    headers req ''x-rh-insights-request-id'' = None"
  then show "post MAX_LENGTH decode tmp req w =
        (Done,
         response0\<lparr>status := 400, out_headers := [(''Content-Type'', ''text/plain'')],
                   written := ''No payload_id assigned. Upload Failed''\<rparr>,
         log ERROR ''No payload_id assigned. Upload Failed'' w)"
    by (simp add: post_no_identifier)
next
  assume "files req ''upload'' = Some (f # fs) \<and>
    headers req ''x-rh-insights-request-id'' = Some payload_id \<and>
    headers req ''Content-Length'' = Some cl \<and> py_int cl = Inr n \<and> MAX_LENGTH \<le> n"
  then show "post MAX_LENGTH decode tmp req w =
        (Done,
         response0\<lparr>status := 413,
                   reason := Some (''Payload too large: '' @ cl @ ''. Should not exceed '' @
                                   str_int MAX_LENGTH @ '' bytes'')\<rparr>,
         w)"
    by (simp add: post_too_large)
next
  assume "files req ''upload'' = Some (f # fs) \<and>
    headers req ''x-rh-insights-request-id'' = Some payload_id \<and>
    headers req ''Content-Length'' = Some cl \<and> py_int cl = Inr n \<and> n < MAX_LENGTH \<and>
    content_regex_search (content_type f) = None"
  then show "post MAX_LENGTH decode tmp req w =
        (Done, response0\<lparr>status := 415, reason := Some ''Unsupported Media Type''\<rparr>, w)"
    by (simp add: post_unsupported)
next
  assume a: "status (fst (snd (post MAX_LENGTH decode tmp req w))) \<noteq> 202"
  obtain out resp w' where p: "post MAX_LENGTH decode tmp req w = (out, resp, w')"
    by (cases "post MAX_LENGTH decode tmp req w") auto
  with a have "tmp_files w' = tmp_files w \<and> scheduled w' = scheduled w"
    by (intro post_not_accepted_stages_nothing [OF p]) simp
  then show "tmp_files (snd (snd (post MAX_LENGTH decode tmp req w))) = tmp_files w"
    and "scheduled (snd (snd (post MAX_LENGTH decode tmp req w))) = scheduled w"
    by (simp_all add: p)
qed

lemma py_int_100: "py_int ''100'' = Inr 100"
  by (simp add: py_int_def py_strip_def py_space_def digit_of_def)

lemma py_int_11010048: "py_int ''11010048'' = Inr 11010048"
  by (simp add: py_int_def py_strip_def py_space_def digit_of_def)

theorem post_validation_order_witness:
  "status (fst (snd (post 11010048 (\<lambda>h. NotBase64) ''/tmp/tmp0''
       \<lparr>headers = [''x-rh-insights-request-id'' \<mapsto> ''abc123'', ''Content-Length'' \<mapsto> ''100''],
        files = Map.empty\<rparr> initial_world))) = 415 \<and>
   status (fst (snd (post 11010048 (\<lambda>h. NotBase64) ''/tmp/tmp0''
       \<lparr>headers = [''Content-Length'' \<mapsto> ''11010048''],
        files = [''upload'' \<mapsto> [\<lparr>content_type = ''text/plain'', body = ''data''\<rparr>]]\<rparr>
       initial_world))) = 400 \<and>
   status (fst (snd (post 11010048 (\<lambda>h. NotBase64) ''/tmp/tmp0''
       \<lparr>headers = [''x-rh-insights-request-id'' \<mapsto> ''abc123'',
                   ''Content-Length'' \<mapsto> ''11010048''],
        files = [''upload'' \<mapsto> [\<lparr>content_type = ''text/plain'', body = ''data''\<rparr>]]\<rparr>
       initial_world))) = 413 \<and>
   status (fst (snd (post 11010048 (\<lambda>h. NotBase64) ''/tmp/tmp0''
       \<lparr>headers = [''x-rh-insights-request-id'' \<mapsto> ''abc123'', ''Content-Length'' \<mapsto> ''100''],
        files = [''upload'' \<mapsto> [\<lparr>content_type = ''text/plain'', body = ''data''\<rparr>]]\<rparr>
       initial_world))) = 415 \<and>
   tmp_files (snd (snd (post 11010048 (\<lambda>h. NotBase64) ''/tmp/tmp0''
       \<lparr>headers = [''x-rh-insights-request-id'' \<mapsto> ''abc123'', ''Content-Length'' \<mapsto> ''100''],
        files = [''upload'' \<mapsto> [\<lparr>content_type = ''text/plain'', body = ''data''\<rparr>]]\<rparr>
       initial_world))) = Map.empty \<and>
   scheduled (snd (snd (post 11010048 (\<lambda>h. NotBase64) ''/tmp/tmp0''
       \<lparr>headers = [''x-rh-insights-request-id'' \<mapsto> ''abc123'', ''Content-Length'' \<mapsto> ''100''],
        files = [''upload'' \<mapsto> [\<lparr>content_type = ''text/plain'', body = ''data''\<rparr>]]\<rparr>
       initial_world))) = []"
proof -
  have nomatch: "content_regex_search ''text/plain'' = None"
    by (simp add: content_regex_search_def strip_prefix_def)
  note a = post_validation_order
    [where req = "\<lparr>headers = [''x-rh-insights-request-id'' \<mapsto> ''abc123'',
                               ''Content-Length'' \<mapsto> ''100''],
                    files = Map.empty\<rparr>"
       and MAX_LENGTH = 11010048 and decode = "\<lambda>h. NotBase64" and tmp = "''/tmp/tmp0''"
       and w = initial_world]
  note b = post_validation_order
    [where req = "\<lparr>headers = [''Content-Length'' \<mapsto> ''11010048''],
                    files = [''upload'' \<mapsto> [\<lparr>content_type = ''text/plain'', body = ''data''\<rparr>]]\<rparr>"
       and MAX_LENGTH = 11010048 and decode = "\<lambda>h. NotBase64" and tmp = "''/tmp/tmp0''"
       and w = initial_world and f = "\<lparr>content_type = ''text/plain'', body = ''data''\<rparr>"
       and fs = "[]"]
  note c = post_validation_order
    [where req = "\<lparr>headers = [''x-rh-insights-request-id'' \<mapsto> ''abc123'',
                               ''Content-Length'' \<mapsto> ''11010048''],
                    files = [''upload'' \<mapsto> [\<lparr>content_type = ''text/plain'', body = ''data''\<rparr>]]\<rparr>"
       and MAX_LENGTH = 11010048 and decode = "\<lambda>h. NotBase64" and tmp = "''/tmp/tmp0''"
       and w = initial_world and f = "\<lparr>content_type = ''text/plain'', body = ''data''\<rparr>"
       and fs = "[]" and payload_id = "''abc123''" and cl = "''11010048''" and n = 11010048]
  note d = post_validation_order
    [where req = "\<lparr>headers = [''x-rh-insights-request-id'' \<mapsto> ''abc123'',
                               ''Content-Length'' \<mapsto> ''100''],
                    files = [''upload'' \<mapsto> [\<lparr>content_type = ''text/plain'', body = ''data''\<rparr>]]\<rparr>"
       and MAX_LENGTH = 11010048 and decode = "\<lambda>h. NotBase64" and tmp = "''/tmp/tmp0''"
       and w = initial_world and f = "\<lparr>content_type = ''text/plain'', body = ''data''\<rparr>"
       and fs = "[]" and payload_id = "''abc123''" and cl = "''100''" and n = 100]
  show ?thesis
    using a b c d
    by (simp add: py_int_100 py_int_11010048 nomatch response0_def initial_world_def)
qed

lemma poll_progress_iff:
  "poll_progress n k percentage = (\<exists>i<n. 100 \<le> percentage (k + i))"
proof (induction n arbitrary: k)
  case 0
  then show ?case by simp
next
  case (Suc n)
  have "(\<exists>i<Suc n. 100 \<le> percentage (k + i)) =
        (100 \<le> percentage k \<or> (\<exists>i<n. 100 \<le> percentage (Suc k + i)))"
  proof
    assume "\<exists>i<Suc n. 100 \<le> percentage (k + i)"
    then obtain i where i: "i < Suc n" "100 \<le> percentage (k + i)" by blast
    show "100 \<le> percentage k \<or> (\<exists>i<n. 100 \<le> percentage (Suc k + i))"
    proof (cases i)
      case 0
      with i show ?thesis by simp
    next
      case (Suc j)
      with i have "j < n" "100 \<le> percentage (Suc k + j)" by simp_all
      then show ?thesis by blast
    qed
  next
    assume "100 \<le> percentage k \<or> (\<exists>i<n. 100 \<le> percentage (Suc k + i))"
    then show "\<exists>i<Suc n. 100 \<le> percentage (k + i)"
    proof
      assume "100 \<le> percentage k"
      then have "0 < Suc n \<and> 100 \<le> percentage (k + 0)" by simp
      then show ?thesis by blast
    next
      assume "\<exists>i<n. 100 \<le> percentage (Suc k + i)"
      then obtain i where "i < n" "100 \<le> percentage (Suc k + i)" by blast
      then have "Suc i < Suc n \<and> 100 \<le> percentage (k + Suc i)" by simp
      then show ?thesis by blast
    qed
  qed
  then show ?case by (simp add: Suc.IH)
qed

lemma upload_effects:
  assumes "upload T write filename tracking_id payload_id w = (out, url, w')"
  shows "tmp_files w' filename = None"
    and "storage_calls w' = storage_calls w @ [StorageWrite filename QUARANTINE payload_id]"
    and "produce_queue w' = produce_queue w"
    and "scheduled w' = scheduled w"
  using assms
  by (auto simp: upload_def log_def Let_def split: option.splits sum.splits prod.splits if_splits)

lemma upload_url_only_if_written:
  assumes "upload T write filename tracking_id payload_id w = (out, Some url, w')"
  shows "\<exists>percentage. write filename QUARANTINE payload_id = Inr (url, percentage) \<and>
           poll_progress (nat (T * 10)) 0 percentage"
  using assms
  by (auto simp: upload_def log_def Let_def split: option.splits sum.splits prod.splits if_splits)

lemma upload_written:
  assumes "write filename QUARANTINE payload_id = Inr (url, percentage)"
    and "poll_progress (nat (T * 10)) 0 percentage"
    and "tmp_files w filename = Some content"
  shows "\<exists>w'. upload T write filename tracking_id payload_id w = (Done, Some url, w') \<and>
           produce_queue w' = produce_queue w"
  using assms by (simp add: upload_def log_def Let_def)

lemma process_upload_queue_changes_only_if_written:
  assumes "produce_queue (snd (process_upload T write t w)) \<noteq> produce_queue w"
  shows "\<exists>url percentage.
           write (task_filename t) QUARANTINE (task_payload_id t) = Inr (url, percentage) \<and>
           poll_progress (nat (T * 10)) 0 percentage"
proof -
  obtain out url w' where u:
    "upload T write (task_filename t) (task_tracking_id t) (task_payload_id t)
       (log INFO ''identity - %s'' w) = (out, url, w')"
    by (metis prod_cases3)
  have q: "produce_queue w' = produce_queue w"
    using upload_effects(3) [OF u] by (simp add: log_def)
  show ?thesis
  proof (cases url)
    case None
    then have False
      using assms u q
      by (auto simp: process_upload_def Let_def log_def split: sum.splits outcome.splits)
    then show ?thesis ..
  next
    case (Some x)
    then show ?thesis
      using upload_url_only_if_written u by blast
  qed
qed

lemma process_upload_storage_calls:
  "storage_calls (snd (process_upload T write t w)) = storage_calls w \<or>
   storage_calls (snd (process_upload T write t w)) =
     storage_calls w @ [StorageWrite (task_filename t) QUARANTINE (task_payload_id t)]"
proof -
  obtain out url w' where u:
    "upload T write (task_filename t) (task_tracking_id t) (task_payload_id t)
       (log INFO ''identity - %s'' w) = (out, url, w')"
    by (metis prod_cases3)
  have "storage_calls w' =
        storage_calls w @ [StorageWrite (task_filename t) QUARANTINE (task_payload_id t)]"
    using upload_effects(2) [OF u] by (simp add: log_def)
  then show ?thesis
    using u
    by (auto simp: process_upload_def Let_def log_def queue_append_def
        split: sum.splits outcome.splits option.splits)
qed

lemma process_upload_enqueues:
  assumes "write (task_filename t) QUARANTINE (task_payload_id t) = Inr (url, percentage)"
    and "poll_progress (nat (T * 10)) 0 percentage"
    and "url \<noteq> []"
    and "tmp_files w (task_filename t) = Some content"
    and "account_values (task_identity t) = Inr (account, org)"
  shows "fst (process_upload T write t w) = Done \<and>
         produce_queue (snd (process_upload T write t w)) =
           deque_append produce_queue_maxlen
             \<lparr>topic = ''platform.upload.'' @ task_service t,
              msg = [(''rh_account'', account),
                     (''principal'', org),
                     (''validation'', JNum 1),
                     (''payload_id'', JStr (task_payload_id t)),
                     (''hash'', JStr (task_payload_id t)),
                     (''size'', JNum (task_size t)),
                     (''service'', JStr (task_service t)),
                     (''url'', JStr url)]\<rparr>
             (produce_queue w)"
proof -
  have f: "tmp_files (log INFO ''identity - %s'' w) (task_filename t) = Some content"
    using assms(4) by (simp add: log_def)
  obtain w' where u:
    "upload T write (task_filename t) (task_tracking_id t) (task_payload_id t)
       (log INFO ''identity - %s'' w) = (Done, Some url, w')"
    and q: "produce_queue w' = produce_queue (log INFO ''identity - %s'' w)"
    using upload_written
      [of "write" "task_filename t" "task_payload_id t" url percentage T
          "log INFO ''identity - %s'' w" content "task_tracking_id t", OF assms(1) assms(2) f]
    by blast
  have "process_upload T write t w =
        (Done,
         log INFO ''Data for payload_id [%s] put on produce queue (qsize: %d)''
           (queue_append
              \<lparr>topic = ''platform.upload.'' @ task_service t,
               msg = [(''rh_account'', account),
                      (''principal'', org),
                      (''validation'', JNum 1),
                      (''payload_id'', JStr (task_payload_id t)),
                      (''hash'', JStr (task_payload_id t)),
                      (''size'', JNum (task_size t)),
                      (''service'', JStr (task_service t)),
                      (''url'', JStr url)]\<rparr> w'))"
    using assms(3) assms(5) by (simp add: process_upload_def Let_def u)
  then show ?thesis
    using q by (simp add: log_def queue_append_def)
qed

lemma process_upload_cleanup:
  assumes "account_values (task_identity t) = Inr (account, org)"
  shows "tmp_files (snd (process_upload T write t w)) (task_filename t) = None \<and>
         storage_calls (snd (process_upload T write t w)) =
           storage_calls w @ [StorageWrite (task_filename t) QUARANTINE (task_payload_id t)]"
proof -
  obtain out url w' where u:
    "upload T write (task_filename t) (task_tracking_id t) (task_payload_id t)
       (log INFO ''identity - %s'' w) = (out, url, w')"
    by (metis prod_cases3)
  have f: "tmp_files w' (task_filename t) = None"
    using upload_effects(1) [OF u] .
  have c: "storage_calls w' =
        storage_calls w @ [StorageWrite (task_filename t) QUARANTINE (task_payload_id t)]"
    using upload_effects(2) [OF u] by (simp add: log_def)
  have "snd (process_upload T write t w) = w' \<or>
        (\<exists>ev. snd (process_upload T write t w) =
           log INFO ''Data for payload_id [%s] put on produce queue (qsize: %d)''
             (queue_append ev w'))"
    using assms
    by (auto simp: process_upload_def Let_def u split: outcome.splits option.splits)
  then have "tmp_files (snd (process_upload T write t w)) = tmp_files w' \<and>
        storage_calls (snd (process_upload T write t w)) = storage_calls w'"
    by (auto simp: log_def queue_append_def)
  then show ?thesis
    using f c by simp
qed

text \<open>
  When reading the account values raises, \<^verbatim>\<open>process_upload\<close> ends before it calls
  \<^verbatim>\<open>upload\<close>: no write is attempted and the temporary file stays.
\<close>

lemma process_upload_identity_error:
  assumes "account_values (task_identity t) = Inl e"
  shows "process_upload T write t w = (Raised e, log INFO ''identity - %s'' w)"
  using assms by (simp add: process_upload_def)

text \<open>
  C8. Whatever the storage write does (it raises, it completes within the timeout, or
  the polls run out), \<^verbatim>\<open>upload\<close> makes exactly one write call and the temporary
  file is gone afterwards. So it is for the continuation of an accepted upload: once
  \<^verbatim>\<open>process_upload\<close> has read the account values, it has made exactly one write
  call for the task's file and payload id when it ends, and the task's temporary file
  is gone, whatever the write did. \<^verbatim>\<open>process_upload\<close> changes the produce queue
  only if the write returned and one of the first \<^verbatim>\<open>STORAGE_UPLOAD_TIMEOUT * 10\<close>
  polls read at least 100 percent; when the write raised or the polls ran out, the
  queue is as it was and at most the one write call was made.
\<close>

theorem upload_cleanup_and_event_only_if_written:
  "tmp_files (snd (snd (upload T write filename tracking_id payload_id w))) filename = None \<and>
   storage_calls (snd (snd (upload T write filename tracking_id payload_id w))) =
     storage_calls w @ [StorageWrite filename QUARANTINE payload_id] \<and>
   (account_values (task_identity t) = Inr (account, org) \<longrightarrow>
      tmp_files (snd (process_upload T write t w)) (task_filename t) = None \<and>
      storage_calls (snd (process_upload T write t w)) =
        storage_calls w @ [StorageWrite (task_filename t) QUARANTINE (task_payload_id t)]) \<and>
   (produce_queue (snd (process_upload T write t w)) \<noteq> produce_queue w \<longrightarrow>
      (\<exists>url percentage.
         write (task_filename t) QUARANTINE (task_payload_id t) = Inr (url, percentage) \<and>
         poll_progress (nat (T * 10)) 0 percentage)) \<and>
   ((\<forall>url percentage.
        write (task_filename t) QUARANTINE (task_payload_id t) = Inr (url, percentage) \<longrightarrow>
        \<not> poll_progress (nat (T * 10)) 0 percentage) \<longrightarrow>
      produce_queue (snd (process_upload T write t w)) = produce_queue w \<and>
      (storage_calls (snd (process_upload T write t w)) = storage_calls w \<or>
       storage_calls (snd (process_upload T write t w)) =
         storage_calls w @ [StorageWrite (task_filename t) QUARANTINE (task_payload_id t)]))"
proof -
  obtain out url w' where u: "upload T write filename tracking_id payload_id w = (out, url, w')"
    by (metis prod_cases3)
  have a: "tmp_files (snd (snd (upload T write filename tracking_id payload_id w))) filename = None"
    using upload_effects(1) [OF u] by (simp add: u)
  have b: "storage_calls (snd (snd (upload T write filename tracking_id payload_id w))) =
     storage_calls w @ [StorageWrite filename QUARANTINE payload_id]"
    using upload_effects(2) [OF u] by (simp add: u)
  have c: "produce_queue (snd (process_upload T write t w)) \<noteq> produce_queue w \<longrightarrow>
      (\<exists>url percentage.
         write (task_filename t) QUARANTINE (task_payload_id t) = Inr (url, percentage) \<and>
         poll_progress (nat (T * 10)) 0 percentage)"
    using process_upload_queue_changes_only_if_written by blast
  have d: "account_values (task_identity t) = Inr (account, org) \<longrightarrow>
      tmp_files (snd (process_upload T write t w)) (task_filename t) = None \<and>
      storage_calls (snd (process_upload T write t w)) =
        storage_calls w @ [StorageWrite (task_filename t) QUARANTINE (task_payload_id t)]"
    using process_upload_cleanup by blast
  from a b c d process_upload_storage_calls [of T "write" t w] show ?thesis
    by blast
qed

lemma poll_progress_constant_50: "\<not> poll_progress n 0 (\<lambda>k. 50)"
  by (simp add: poll_progress_iff)

theorem upload_cleanup_and_event_only_if_written_witness:
  "tmp_files (snd (snd (upload 60 (\<lambda>file dest key. Inl StorageError) ''/tmp/tmp0'' ''null''
       ''abc123'' (initial_world\<lparr>tmp_files := [''/tmp/tmp0'' \<mapsto> ''data'']\<rparr>)))) ''/tmp/tmp0'' =
     None \<and>
   tmp_files (snd (process_upload 60 (\<lambda>file dest key. Inl StorageError)
       \<lparr>task_filename = ''/tmp/tmp0'', task_size = 100, task_tracking_id = ''null'',
        task_payload_id = ''abc123'', task_identity = None, task_service = ''demo''\<rparr>
       (initial_world\<lparr>tmp_files := [''/tmp/tmp0'' \<mapsto> ''data'']\<rparr>))) ''/tmp/tmp0'' = None \<and>
   storage_calls (snd (process_upload 60 (\<lambda>file dest key. Inl StorageError)
       \<lparr>task_filename = ''/tmp/tmp0'', task_size = 100, task_tracking_id = ''null'',
        task_payload_id = ''abc123'', task_identity = None, task_service = ''demo''\<rparr>
       (initial_world\<lparr>tmp_files := [''/tmp/tmp0'' \<mapsto> ''data'']\<rparr>))) =
     [StorageWrite ''/tmp/tmp0'' QUARANTINE ''abc123''] \<and>
   tmp_files (snd (process_upload 60
       (\<lambda>file dest key. Inr (''http://quarantine/abc123'', \<lambda>k. 50))
       \<lparr>task_filename = ''/tmp/tmp0'', task_size = 100, task_tracking_id = ''null'',
        task_payload_id = ''abc123'', task_identity = None, task_service = ''demo''\<rparr>
       (initial_world\<lparr>tmp_files := [''/tmp/tmp0'' \<mapsto> ''data'']\<rparr>))) ''/tmp/tmp0'' = None \<and>
   produce_queue (snd (process_upload 60 (\<lambda>file dest key. Inl StorageError)
       \<lparr>task_filename = ''/tmp/tmp0'', task_size = 100, task_tracking_id = ''null'',
        task_payload_id = ''abc123'', task_identity = None, task_service = ''demo''\<rparr>
       (initial_world\<lparr>tmp_files := [''/tmp/tmp0'' \<mapsto> ''data'']\<rparr>))) = [] \<and>
   produce_queue (snd (process_upload 60
       (\<lambda>file dest key. Inr (''http://quarantine/abc123'', \<lambda>k. 50))
       \<lparr>task_filename = ''/tmp/tmp0'', task_size = 100, task_tracking_id = ''null'',
        task_payload_id = ''abc123'', task_identity = None, task_service = ''demo''\<rparr>
       (initial_world\<lparr>tmp_files := [''/tmp/tmp0'' \<mapsto> ''data'']\<rparr>))) = []"
proof -
  note raised = upload_cleanup_and_event_only_if_written
    [of 60 "\<lambda>file dest key. Inl StorageError" "''/tmp/tmp0''" "''null''" "''abc123''"
        "initial_world\<lparr>tmp_files := [''/tmp/tmp0'' \<mapsto> ''data'']\<rparr>"
        "\<lparr>task_filename = ''/tmp/tmp0'', task_size = 100, task_tracking_id = ''null'',
           task_payload_id = ''abc123'', task_identity = None, task_service = ''demo''\<rparr>"
        "JStr ''000001''" "JStr ''default_principal''"]
  note timed_out = upload_cleanup_and_event_only_if_written
    [of 60 "\<lambda>file dest key. Inr (''http://quarantine/abc123'', \<lambda>k. 50)" "''/tmp/tmp0''" "''null''" "''abc123''"
        "initial_world\<lparr>tmp_files := [''/tmp/tmp0'' \<mapsto> ''data'']\<rparr>"
        "\<lparr>task_filename = ''/tmp/tmp0'', task_size = 100, task_tracking_id = ''null'',
           task_payload_id = ''abc123'', task_identity = None, task_service = ''demo''\<rparr>"
        "JStr ''000001''" "JStr ''default_principal''"]
  have q: "produce_queue (initial_world\<lparr>tmp_files := [''/tmp/tmp0'' \<mapsto> ''data'']\<rparr>) = []"
    by (simp add: initial_world_def)
  have v: "account_values None = Inr (JStr ''000001'', JStr ''default_principal'')"
    by (simp add: account_values_def DUMMY_VALUES_def)
  have c: "storage_calls (initial_world\<lparr>tmp_files := [''/tmp/tmp0'' \<mapsto> ''data'']\<rparr>) = []"
    by (simp add: initial_world_def)
  show ?thesis
    using raised timed_out by (simp add: poll_progress_constant_50 q v c)
qed

lemma account_values_dummy:
  assumes "identity = None \<or> (\<exists>i. identity = Some i \<and> \<not> py_truthy i)"
  shows "account_values identity = Inr (JStr ''000001'', JStr ''default_principal'')"
  using assms by (auto simp: account_values_def DUMMY_VALUES_def)

lemma account_values_identity:
  assumes "identity = Some (JObj kvs)"
    and "map_of kvs ''account_number'' = Some account" and "map_of kvs ''org_id'' = Some org"
  shows "account_values identity = Inr (account, org)"
proof -
  have "kvs \<noteq> []"
    using assms(2) by auto
  then show ?thesis
    using assms by (simp add: account_values_def)
qed

text \<open>
  C9. Let the storage write of an upload return a non-empty url and complete within
  the timeout, the temporary file being there. Then \<^verbatim>\<open>process_upload\<close> returns and
  appends exactly one event to the produce queue, on topic \<^verbatim>\<open>platform.upload.\<close>
  followed by the service. Its \<^verbatim>\<open>payload_id\<close> and its \<^verbatim>\<open>hash\<close> are the payload id
  of the request. Its \<^verbatim>\<open>rh_account\<close> and \<^verbatim>\<open>principal\<close> are the placeholders of
  \<^verbatim>\<open>DUMMY_VALUES\<close> when there is no identity or the identity is false in Python's
  sense, and the \<^verbatim>\<open>account_number\<close> and \<^verbatim>\<open>org_id\<close> of the identity when it is an
  object that has them.
\<close>

theorem staged_upload_enqueues_received_event:
  assumes "write (task_filename t) QUARANTINE (task_payload_id t) = Inr (url, percentage)"
    and "poll_progress (nat (T * 10)) 0 percentage"
    and "url \<noteq> []"
    and "tmp_files w (task_filename t) = Some content"
  shows "((task_identity t = None \<or> (\<exists>i. task_identity t = Some i \<and> \<not> py_truthy i)) \<longrightarrow>
            fst (process_upload T write t w) = Done \<and>
            produce_queue (snd (process_upload T write t w)) =
              deque_append produce_queue_maxlen
                \<lparr>topic = ''platform.upload.'' @ task_service t,
                 msg = [(''rh_account'', JStr ''000001''),
                        (''principal'', JStr ''default_principal''),
                        (''validation'', JNum 1),
                        (''payload_id'', JStr (task_payload_id t)),
                        (''hash'', JStr (task_payload_id t)),
                        (''size'', JNum (task_size t)),
                        (''service'', JStr (task_service t)),
                        (''url'', JStr url)]\<rparr>
                (produce_queue w)) \<and>
         (task_identity t = Some (JObj kvs) \<and> map_of kvs ''account_number'' = Some account \<and>
          map_of kvs ''org_id'' = Some org \<longrightarrow>
            fst (process_upload T write t w) = Done \<and>
            produce_queue (snd (process_upload T write t w)) =
              deque_append produce_queue_maxlen
                \<lparr>topic = ''platform.upload.'' @ task_service t,
                 msg = [(''rh_account'', account),
                        (''principal'', org),
                        (''validation'', JNum 1),
                        (''payload_id'', JStr (task_payload_id t)),
                        (''hash'', JStr (task_payload_id t)),
                        (''size'', JNum (task_size t)),
                        (''service'', JStr (task_service t)),
                        (''url'', JStr url)]\<rparr>
                (produce_queue w))"
proof (rule conjI; rule impI)
  assume "task_identity t = None \<or> (\<exists>i. task_identity t = Some i \<and> \<not> py_truthy i)"
  then have v: "account_values (task_identity t) =
                Inr (JStr ''000001'', JStr ''default_principal'')"
    by (rule account_values_dummy)
  show "fst (process_upload T write t w) = Done \<and>
        produce_queue (snd (process_upload T write t w)) =
          deque_append produce_queue_maxlen
            \<lparr>topic = ''platform.upload.'' @ task_service t,
             msg = [(''rh_account'', JStr ''000001''),
                    (''principal'', JStr ''default_principal''),
                    (''validation'', JNum 1),
                    (''payload_id'', JStr (task_payload_id t)),
                    (''hash'', JStr (task_payload_id t)),
                    (''size'', JNum (task_size t)),
                    (''service'', JStr (task_service t)),
                    (''url'', JStr url)]\<rparr>
            (produce_queue w)"
    using assms v by (rule process_upload_enqueues)
next
  assume "task_identity t = Some (JObj kvs) \<and> map_of kvs ''account_number'' = Some account \<and>
          map_of kvs ''org_id'' = Some org"
  then have v: "account_values (task_identity t) = Inr (account, org)"
    by (simp add: account_values_identity)
  show "fst (process_upload T write t w) = Done \<and>
        produce_queue (snd (process_upload T write t w)) =
          deque_append produce_queue_maxlen
            \<lparr>topic = ''platform.upload.'' @ task_service t,
             msg = [(''rh_account'', account),
                    (''principal'', org),
                    (''validation'', JNum 1),
                    (''payload_id'', JStr (task_payload_id t)),
                    (''hash'', JStr (task_payload_id t)),
                    (''size'', JNum (task_size t)),
                    (''service'', JStr (task_service t)),
                    (''url'', JStr url)]\<rparr>
            (produce_queue w)"
    using assms v by (rule process_upload_enqueues)
qed

lemma poll_progress_third_poll:
  "poll_progress (nat (60 * 10)) 0 (\<lambda>k. if k < 2 then 50 else 100)"
proof -
  have "(2::nat) < nat (60 * 10) \<and> (100::int) \<le> (if (0 + 2::nat) < 2 then 50 else 100)"
    by simp
  then show ?thesis
    unfolding poll_progress_iff by blast
qed

theorem staged_upload_enqueues_received_event_witness:
  "produce_queue (snd (process_upload 60
       (\<lambda>file dest key. Inr (''http://quarantine/abc123'', \<lambda>k. if k < 2 then 50 else 100))
       \<lparr>task_filename = ''/tmp/tmp0'', task_size = 100, task_tracking_id = ''null'',
        task_payload_id = ''abc123'', task_identity = None, task_service = ''demo''\<rparr>
       (initial_world\<lparr>tmp_files := [''/tmp/tmp0'' \<mapsto> ''data'']\<rparr>))) =
     [\<lparr>topic = ''platform.upload.demo'',
       msg = [(''rh_account'', JStr ''000001''),
              (''principal'', JStr ''default_principal''),
              (''validation'', JNum 1),
              (''payload_id'', JStr ''abc123''),
              (''hash'', JStr ''abc123''),
              (''size'', JNum 100),
              (''service'', JStr ''demo''),
              (''url'', JStr ''http://quarantine/abc123'')]\<rparr>] \<and>
   produce_queue (snd (process_upload 60
       (\<lambda>file dest key. Inr (''http://quarantine/abc123'', \<lambda>k. if k < 2 then 50 else 100))
       \<lparr>task_filename = ''/tmp/tmp0'', task_size = 100, task_tracking_id = ''null'',
        task_payload_id = ''abc123'',
        task_identity =
          Some (JObj [(''account_number'', JStr ''540155''), (''org_id'', JStr ''1979710'')]),
        task_service = ''demo''\<rparr>
       (initial_world\<lparr>tmp_files := [''/tmp/tmp0'' \<mapsto> ''data'']\<rparr>))) =
     [\<lparr>topic = ''platform.upload.demo'',
       msg = [(''rh_account'', JStr ''540155''),
              (''principal'', JStr ''1979710''),
              (''validation'', JNum 1),
              (''payload_id'', JStr ''abc123''),
              (''hash'', JStr ''abc123''),
              (''size'', JNum 100),
              (''service'', JStr ''demo''),
              (''url'', JStr ''http://quarantine/abc123'')]\<rparr>]"
proof -
  note placeholder = staged_upload_enqueues_received_event
    [of "\<lambda>file dest key. Inr (''http://quarantine/abc123'', \<lambda>k. if k < 2 then 50 else 100)"
        "\<lparr>task_filename = ''/tmp/tmp0'', task_size = 100, task_tracking_id = ''null'',
          task_payload_id = ''abc123'', task_identity = None, task_service = ''demo''\<rparr>"
        "''http://quarantine/abc123''" "\<lambda>k. if k < 2 then 50 else 100" 60
        "initial_world\<lparr>tmp_files := [''/tmp/tmp0'' \<mapsto> ''data'']\<rparr>" "''data''",
     OF _ poll_progress_third_poll]
  note identity = staged_upload_enqueues_received_event
    [of "\<lambda>file dest key. Inr (''http://quarantine/abc123'', \<lambda>k. if k < 2 then 50 else 100)"
        "\<lparr>task_filename = ''/tmp/tmp0'', task_size = 100, task_tracking_id = ''null'',
          task_payload_id = ''abc123'',
          task_identity =
            Some (JObj [(''account_number'', JStr ''540155''), (''org_id'', JStr ''1979710'')]),
          task_service = ''demo''\<rparr>"
        "''http://quarantine/abc123''" "\<lambda>k. if k < 2 then 50 else 100" 60
        "initial_world\<lparr>tmp_files := [''/tmp/tmp0'' \<mapsto> ''data'']\<rparr>" "''data''"
        "[(''account_number'', JStr ''540155''), (''org_id'', JStr ''1979710'')]"
        "JStr ''540155''" "JStr ''1979710''",
     OF _ poll_progress_third_poll]
  have q: "produce_queue (initial_world\<lparr>tmp_files := [''/tmp/tmp0'' \<mapsto> ''data'']\<rparr>) = []"
    by (simp add: initial_world_def)
  have a: "deque_append produce_queue_maxlen e [] = [e]" for e :: event
    by (simp add: deque_append_def produce_queue_maxlen_def)
  show ?thesis
    using placeholder identity by (simp add: q a)
qed

text \<open>
  C4 (as stated, refuted). The scenario's content type \<^verbatim>\<open>vnd.redhat.demo.testsvc+tgz\<close>
  does not start with \<^verbatim>\<open>application/\<close>, so the pattern does not match it: the POST
  with payload id abc123 and content length 100 gets 415, not 202, and nothing is
  staged. With the prefix added the content type is accepted, but its third segment
  at the dots is \<^verbatim>\<open>demo\<close>, not \<^verbatim>\<open>testsvc\<close>.
\<close>

theorem upload_scenario_gets_415_and_service_is_demo:
  "post 11010048 (\<lambda>h. NotBase64) ''/tmp/tmp0''
     \<lparr>headers = [''x-rh-insights-request-id'' \<mapsto> ''abc123'', ''Content-Length'' \<mapsto> ''100''],
      files = [''upload'' \<mapsto>
                 [\<lparr>content_type = ''vnd.redhat.demo.testsvc+tgz'', body = ''data''\<rparr>]]\<rparr>
     initial_world =
   (Done, response0\<lparr>status := 415, reason := Some ''Unsupported Media Type''\<rparr>, initial_world) \<and>
   split_content ''application/vnd.redhat.demo.testsvc+tgz'' = Inr ''demo''"
proof -
  have "content_regex_search ''vnd.redhat.demo.testsvc+tgz'' = None"
    by (simp add: content_regex_search_def strip_prefix_def)
  then have "post 11010048 (\<lambda>h. NotBase64) ''/tmp/tmp0''
     \<lparr>headers = [''x-rh-insights-request-id'' \<mapsto> ''abc123'', ''Content-Length'' \<mapsto> ''100''],
      files = [''upload'' \<mapsto>
                 [\<lparr>content_type = ''vnd.redhat.demo.testsvc+tgz'', body = ''data''\<rparr>]]\<rparr>
     initial_world =
   (Done, response0\<lparr>status := 415, reason := Some ''Unsupported Media Type''\<rparr>, initial_world)"
    by (simp add: post_def upload_validation_def py_int_100)
  moreover have "split_content ''application/vnd.redhat.demo.testsvc+tgz'' = Inr ''demo''"
    by (simp add: split_content_def)
  ultimately show ?thesis
    by blast
qed

lemma post_accepted:
  assumes "files req ''upload'' = Some (f # fs)"
    and "headers req ''x-rh-insights-request-id'' = Some payload_id"
    and "headers req ''Content-Length'' = Some cl" and "py_int cl = Inr n"
    and "n < MAX_LENGTH"
    and "content_regex_search (content_type f) = Some (g1, g2, g3)"
    and "request_identity decode req w = (Inr identity, w1)"
  shows "post MAX_LENGTH decode tmp req w =
         (Done, response0\<lparr>status := 202, reason := Some ''Accepted''\<rparr>,
          w1\<lparr>tmp_files := (tmp_files w1)(tmp \<mapsto> body f),
             scheduled := scheduled w1 @
               [\<lparr>task_filename = tmp, task_size = n,
                 task_tracking_id =
                   (case headers req ''Tracking-ID'' of None \<Rightarrow> ''null'' | Some t \<Rightarrow> t),
                 task_payload_id = payload_id, task_identity = identity,
                 task_service = g1\<rparr>]\<rparr>)"
proof -
  have s: "split_content (content_type f) = Inr g1"
    using accepted_content_type_is_split [OF assms(6)] by simp
  have v: "upload_validation MAX_LENGTH req = Inr None"
    using assms by (simp add: upload_validation_def)
  show ?thesis
    using assms(1-4) assms(7) by (simp add: post_def v s)
qed

text \<open>
  C4 (amended). A POST with a file in the \<^verbatim>\<open>upload\<close> field, a request id, a
  declared length below \<^verbatim>\<open>MAX_LENGTH\<close> and a content type that the pattern accepts
  (so one that starts with \<^verbatim>\<open>application/vnd.redhat.\<close>) gets 202, and the service
  handed to the continuation is the third segment of the content type at the dots,
  which is the first group of the match. When the storage write then completes with a
  url, the one event the continuation appends is on topic \<^verbatim>\<open>platform.upload.\<close>
  followed by that service, with the request id as its \<^verbatim>\<open>payload_id\<close>.
\<close>

theorem accepted_upload_is_announced_on_service_topic:
  assumes "files req ''upload'' = Some (f # fs)"
    and "headers req ''x-rh-insights-request-id'' = Some payload_id"
    and "headers req ''Content-Length'' = Some cl" and "py_int cl = Inr n"
    and "n < MAX_LENGTH"
    and "content_regex_search (content_type f) = Some (g1, g2, g3)"
    and "request_identity decode req w = (Inr identity, w1)"
  shows "post MAX_LENGTH decode tmp req w =
           (Done, response0\<lparr>status := 202, reason := Some ''Accepted''\<rparr>,
            w1\<lparr>tmp_files := (tmp_files w1)(tmp \<mapsto> body f),
               scheduled := scheduled w1 @
                 [\<lparr>task_filename = tmp, task_size = n,
                   task_tracking_id =
                     (case headers req ''Tracking-ID'' of None \<Rightarrow> ''null'' | Some t \<Rightarrow> t),
                   task_payload_id = payload_id, task_identity = identity,
                   task_service = g1\<rparr>]\<rparr>) \<and>
         split_content (content_type f) = Inr g1 \<and>
         (write tmp QUARANTINE payload_id = Inr (url, percentage) \<and>
          poll_progress (nat (T * 10)) 0 percentage \<and> url \<noteq> [] \<and>
          tmp_files w2 tmp = Some content \<and>
          account_values identity = Inr (account, org) \<longrightarrow>
            produce_queue (snd (process_upload T write
                \<lparr>task_filename = tmp, task_size = n,
                 task_tracking_id =
                   (case headers req ''Tracking-ID'' of None \<Rightarrow> ''null'' | Some t \<Rightarrow> t),
                 task_payload_id = payload_id, task_identity = identity,
                 task_service = g1\<rparr> w2)) =
              deque_append produce_queue_maxlen
                \<lparr>topic = ''platform.upload.'' @ g1,
                 msg = [(''rh_account'', account),
                        (''principal'', org),
                        (''validation'', JNum 1),
                        (''payload_id'', JStr payload_id),
                        (''hash'', JStr payload_id),
                        (''size'', JNum n),
                        (''service'', JStr g1),
                        (''url'', JStr url)]\<rparr>
                (produce_queue w2))"
proof (intro conjI impI)
  show "post MAX_LENGTH decode tmp req w =
           (Done, response0\<lparr>status := 202, reason := Some ''Accepted''\<rparr>,
            w1\<lparr>tmp_files := (tmp_files w1)(tmp \<mapsto> body f),
               scheduled := scheduled w1 @
                 [\<lparr>task_filename = tmp, task_size = n,
                   task_tracking_id =
                     (case headers req ''Tracking-ID'' of None \<Rightarrow> ''null'' | Some t \<Rightarrow> t),
                   task_payload_id = payload_id, task_identity = identity,
                   task_service = g1\<rparr>]\<rparr>)"
    using assms by (rule post_accepted)
next
  show "split_content (content_type f) = Inr g1"
    using accepted_content_type_is_split [OF assms(6)] by simp
next
  let ?t = "\<lparr>task_filename = tmp, task_size = n,
             task_tracking_id =
               (case headers req ''Tracking-ID'' of None \<Rightarrow> ''null'' | Some t \<Rightarrow> t),
             task_payload_id = payload_id, task_identity = identity,
             task_service = g1\<rparr>"
  assume a: "write tmp QUARANTINE payload_id = Inr (url, percentage) \<and>
          poll_progress (nat (T * 10)) 0 percentage \<and> url \<noteq> [] \<and>
          tmp_files w2 tmp = Some content \<and>
          account_values identity = Inr (account, org)"
  have "fst (process_upload T write ?t w2) = Done \<and>
        produce_queue (snd (process_upload T write ?t w2)) =
          deque_append produce_queue_maxlen
            \<lparr>topic = ''platform.upload.'' @ task_service ?t,
             msg = [(''rh_account'', account),
                    (''principal'', org),
                    (''validation'', JNum 1),
                    (''payload_id'', JStr (task_payload_id ?t)),
                    (''hash'', JStr (task_payload_id ?t)),
                    (''size'', JNum (task_size ?t)),
                    (''service'', JStr (task_service ?t)),
                    (''url'', JStr url)]\<rparr>
            (produce_queue w2)"
    by (rule process_upload_enqueues [where percentage = percentage and content = content])
      (use a in simp_all)
  then show "produce_queue (snd (process_upload T write ?t w2)) =
              deque_append produce_queue_maxlen
                \<lparr>topic = ''platform.upload.'' @ g1,
                 msg = [(''rh_account'', account),
                        (''principal'', org),
                        (''validation'', JNum 1),
                        (''payload_id'', JStr payload_id),
                        (''hash'', JStr payload_id),
                        (''size'', JNum n),
                        (''service'', JStr g1),
                        (''url'', JStr url)]\<rparr>
                (produce_queue w2)"
    by simp
qed

theorem accepted_upload_is_announced_on_service_topic_witness:
  "post 11010048 (\<lambda>h. NotBase64) ''/tmp/tmp0''
     \<lparr>headers = [''x-rh-insights-request-id'' \<mapsto> ''abc123'', ''Content-Length'' \<mapsto> ''100''],
      files = [''upload'' \<mapsto>
                 [\<lparr>content_type = ''application/vnd.redhat.demo.testsvc+tgz'',
                   body = ''data''\<rparr>]]\<rparr>
     initial_world =
   (Done, response0\<lparr>status := 202, reason := Some ''Accepted''\<rparr>,
    initial_world\<lparr>
      tmp_files := [''/tmp/tmp0'' \<mapsto> ''data''],
      scheduled :=
        [\<lparr>task_filename = ''/tmp/tmp0'', task_size = 100, task_tracking_id = ''null'',
          task_payload_id = ''abc123'', task_identity = None, task_service = ''demo''\<rparr>]\<rparr>) \<and>
   split_content ''application/vnd.redhat.demo.testsvc+tgz'' = Inr ''demo'' \<and>
   produce_queue (snd (process_upload 60
       (\<lambda>file dest key. Inr (''http://quarantine/abc123'', \<lambda>k. if k < 2 then 50 else 100))
       \<lparr>task_filename = ''/tmp/tmp0'', task_size = 100, task_tracking_id = ''null'',
        task_payload_id = ''abc123'', task_identity = None, task_service = ''demo''\<rparr>
       (initial_world\<lparr>
          tmp_files := [''/tmp/tmp0'' \<mapsto> ''data''],
          scheduled :=
            [\<lparr>task_filename = ''/tmp/tmp0'', task_size = 100, task_tracking_id = ''null'',
              task_payload_id = ''abc123'', task_identity = None,
              task_service = ''demo''\<rparr>]\<rparr>))) =
     [\<lparr>topic = ''platform.upload.demo'',
       msg = [(''rh_account'', JStr ''000001''),
              (''principal'', JStr ''default_principal''),
              (''validation'', JNum 1),
              (''payload_id'', JStr ''abc123''),
              (''hash'', JStr ''abc123''),
              (''size'', JNum 100),
              (''service'', JStr ''demo''),
              (''url'', JStr ''http://quarantine/abc123'')]\<rparr>]"
proof -
  have m: "content_regex_search ''application/vnd.redhat.demo.testsvc+tgz'' =
             Some (''demo'', ''testsvc'', ''tgz'')"
    by (simp add: content_regex_search_def strip_prefix_def service_char_def)
  have i: "request_identity (\<lambda>h. NotBase64)
             \<lparr>headers = [''x-rh-insights-request-id'' \<mapsto> ''abc123'',
                         ''Content-Length'' \<mapsto> ''100''],
              files = [''upload'' \<mapsto>
                         [\<lparr>content_type = ''application/vnd.redhat.demo.testsvc+tgz'',
                           body = ''data''\<rparr>]]\<rparr>
             initial_world = (Inr None, initial_world)"
    by (simp add: request_identity_def)
  have v: "account_values None = Inr (JStr ''000001'', JStr ''default_principal'')"
    by (simp add: account_values_dummy)
  note scenario = accepted_upload_is_announced_on_service_topic
    [of "\<lparr>headers = [''x-rh-insights-request-id'' \<mapsto> ''abc123'',
                      ''Content-Length'' \<mapsto> ''100''],
           files = [''upload'' \<mapsto>
                      [\<lparr>content_type = ''application/vnd.redhat.demo.testsvc+tgz'',
                        body = ''data''\<rparr>]]\<rparr>"
        "\<lparr>content_type = ''application/vnd.redhat.demo.testsvc+tgz'', body = ''data''\<rparr>"
        "[]" "''abc123''" "''100''" 100 11010048 "''demo''" "''testsvc''" "''tgz''"
        "\<lambda>h. NotBase64" initial_world None initial_world "''/tmp/tmp0''"
        "\<lambda>file dest key. Inr (''http://quarantine/abc123'', \<lambda>k. if k < 2 then 50 else 100)"
        "''http://quarantine/abc123''" "\<lambda>k. if k < 2 then 50 else 100" 60
        "initial_world\<lparr>
           tmp_files := [''/tmp/tmp0'' \<mapsto> ''data''],
           scheduled :=
             [\<lparr>task_filename = ''/tmp/tmp0'', task_size = 100, task_tracking_id = ''null'',
               task_payload_id = ''abc123'', task_identity = None,
               task_service = ''demo''\<rparr>]\<rparr>"
        "''data''" "JStr ''000001''" "JStr ''default_principal''",
     OF _ _ _ py_int_100 _ _ i]
  have a: "deque_append produce_queue_maxlen e [] = [e]" for e :: event
    by (simp add: deque_append_def produce_queue_maxlen_def)
  have t: "initial_world\<lparr>tmp_files := (tmp_files initial_world)(''/tmp/tmp0'' \<mapsto> ''data''),
             scheduled := scheduled initial_world @ ts\<rparr> =
           initial_world\<lparr>tmp_files := [''/tmp/tmp0'' \<mapsto> ''data''], scheduled := ts\<rparr>" for ts
    by (simp add: initial_world_def)
  have q: "produce_queue (initial_world\<lparr>tmp_files := fs, scheduled := ts\<rparr>) = []" for fs ts
    by (simp add: initial_world_def)
  show ?thesis
    using scenario poll_progress_third_poll by (simp add: m v a t q)
qed

end
